theory Spec2Isabelle
  imports Complex_Main "HOL-Library.Char_ord" "HOL-Library.List_Lexorder"
begin

section \<open>Python values and string helpers\<close>

text \<open>
  Strings are byte sequences (\<open>char list\<close>); text outside ASCII appears as its UTF-8
  encoding.

  Values read out of an untyped JSON object (the evaluator's \<open>answer_quality\<close> block,
  a dictionary entry that may hold anything) are modelled by \<open>pyval\<close>; \<open>PNone\<close> also
  stands for a missing key read with \<open>dict.get\<close>, and \<open>POther\<close> for a list or an object.
\<close>

datatype pyval = PNone | PBool bool | PInt int | PFloat real | PStr string | POther

text \<open>Python's \<open>==\<close> between a JSON value and a string or integer literal:
  booleans and floats compare numerically with integers, everything else by kind.\<close>

fun py_num :: "pyval \<Rightarrow> real option" where
  "py_num (PBool b) = Some (if b then 1 else 0)"
| "py_num (PInt i) = Some (of_int i)"
| "py_num (PFloat x) = Some x"
| "py_num PNone = None"
| "py_num (PStr s) = None"
| "py_num POther = None"

definition py_eq :: "pyval \<Rightarrow> pyval \<Rightarrow> bool" where
  "py_eq a b =
     (case (a, b) of
        (PStr s, PStr t) \<Rightarrow> s = t
      | (PNone, PNone) \<Rightarrow> True
      | _ \<Rightarrow> (case (py_num a, py_num b) of (Some x, Some y) \<Rightarrow> x = y | _ \<Rightarrow> False))"

text \<open>\<open>v in (a, b, c)\<close> on a tuple of literals.\<close>

definition py_in :: "pyval \<Rightarrow> pyval list \<Rightarrow> bool" where
  "py_in v xs = list_ex (py_eq v) xs"

text \<open>Truthiness of an optional string: \<open>None\<close> and the empty string are falsy.\<close>

definition truthy :: "string option \<Rightarrow> bool" where
  "truthy s = (case s of None \<Rightarrow> False | Some t \<Rightarrow> t \<noteq> [])"

text \<open>The slice \<open>xs[-n:]\<close> for a positive \<open>n\<close>: the last \<open>n\<close> elements, or all of
  \<open>xs\<close> when it is shorter.\<close>

definition py_tail :: "nat \<Rightarrow> 'a list \<Rightarrow> 'a list" where
  "py_tail n xs = drop (length xs - n) xs"

text \<open>
  A Python string is a sequence of Unicode characters; here it is the UTF-8 encoding of
  that sequence. A character is one lead byte followed by its continuation bytes
  (\<open>0x80\<close> to \<open>0xBF\<close>), so \<open>len\<close> counts the bytes that are not continuation bytes
  and the slice \<open>text[:n]\<close> keeps the bytes of the first \<open>n\<close> characters.
\<close>

definition is_continuation :: "char \<Rightarrow> bool" where
  "is_continuation c = (CHR 0x80 \<le> c \<and> c \<le> CHR 0xBF)"

definition py_len :: "string \<Rightarrow> nat" where
  "py_len s = length (filter (\<lambda>c. \<not> is_continuation c) s)"

fun py_take :: "nat \<Rightarrow> string \<Rightarrow> string" where
  "py_take n [] = []"
| "py_take n (c # cs) =
     (if is_continuation c then c # py_take n cs
      else (case n of 0 \<Rightarrow> [] | Suc m \<Rightarrow> c # py_take m cs))"

text \<open>
  \<open>str.strip()\<close> removes from both ends the characters for which \<open>str.isspace()\<close>
  holds: U+0009 to U+000D, U+001C to U+0020, U+0085, U+00A0, U+1680, U+2000 to U+200A,
  U+2028, U+2029, U+202F, U+205F and U+3000, listed here by their encodings. UTF-8 is
  self-synchronising, so a string starts (ends) with such a character exactly when it
  starts (ends) with the character's bytes.
\<close>

definition py_whitespace :: "string list" where
  "py_whitespace =
     [[CHR 0x09], [CHR 0x0A], [CHR 0x0B], [CHR 0x0C], [CHR 0x0D], [CHR 0x1C], [CHR 0x1D],
      [CHR 0x1E], [CHR 0x1F], [CHR 0x20], [CHR 0xC2, CHR 0x85], [CHR 0xC2, CHR 0xA0],
      [CHR 0xE1, CHR 0x9A, CHR 0x80], [CHR 0xE2, CHR 0x80, CHR 0x80],
      [CHR 0xE2, CHR 0x80, CHR 0x81], [CHR 0xE2, CHR 0x80, CHR 0x82],
      [CHR 0xE2, CHR 0x80, CHR 0x83], [CHR 0xE2, CHR 0x80, CHR 0x84],
      [CHR 0xE2, CHR 0x80, CHR 0x85], [CHR 0xE2, CHR 0x80, CHR 0x86],
      [CHR 0xE2, CHR 0x80, CHR 0x87], [CHR 0xE2, CHR 0x80, CHR 0x88],
      [CHR 0xE2, CHR 0x80, CHR 0x89], [CHR 0xE2, CHR 0x80, CHR 0x8A],
      [CHR 0xE2, CHR 0x80, CHR 0xA8], [CHR 0xE2, CHR 0x80, CHR 0xA9],
      [CHR 0xE2, CHR 0x80, CHR 0xAF], [CHR 0xE2, CHR 0x81, CHR 0x9F],
      [CHR 0xE3, CHR 0x80, CHR 0x80]]"

definition strip_step :: "string list \<Rightarrow> string \<Rightarrow> nat" where
  "strip_step table s =
     (case find (\<lambda>w. take (length w) s = w) table of
        Some w \<Rightarrow> length w
      | None \<Rightarrow> 0)"

function strip_prefixes :: "string list \<Rightarrow> string \<Rightarrow> string" where
  "strip_prefixes table s =
     (if strip_step table s = 0 \<or> s = [] then s
      else strip_prefixes table (drop (strip_step table s) s))"
  by pat_completeness auto
termination
  by (relation "measure (\<lambda>(table, s). length s)") auto

declare strip_prefixes.simps [simp del]

definition py_strip :: "string \<Rightarrow> string" where
  "py_strip s =
     rev (strip_prefixes (map rev py_whitespace) (rev (strip_prefixes py_whitespace s)))"

text \<open>
  \<open>str.lower()\<close> maps \<open>A\<close> to \<open>Z\<close> to \<open>a\<close> to \<open>z\<close> and leaves every other ASCII
  character alone. For a string with a character outside ASCII the result depends on
  the Unicode case tables of the Python runtime, which are no part of the program: the
  lower-casing of such strings is the parameter \<open>unicode_lower\<close>.
\<close>

definition is_ascii :: "char \<Rightarrow> bool" where
  "is_ascii c = (c \<le> CHR 0x7F)"

definition py_lower_char :: "char \<Rightarrow> char" where
  "py_lower_char c =
     (if CHR ''A'' \<le> c \<and> c \<le> CHR ''Z'' then char_of (of_char c + (32::nat)) else c)"

definition py_lower :: "(string \<Rightarrow> string) \<Rightarrow> string \<Rightarrow> string" where
  "py_lower unicode_lower s =
     (if list_all is_ascii s then map py_lower_char s else unicode_lower s)"

section \<open>The question bank (app/policies/question\_bank.py)\<close>

text \<open>
  A bank entry is a dictionary with the five keys below. The selection code reads
  \<open>question_id\<close> through \<open>dict.get\<close> and tests \<open>isinstance(qid, str)\<close>, so that field
  is a \<open>pyval\<close>; the other fields hold what the bank literal holds.
  The prompts are Russian text, given here as UTF-8 bytes.
\<close>

record question =
  question_id :: pyval
  q_topic :: string
  q_difficulty :: int
  q_type :: string
  q_prompt :: string

definition prompt_py_types_1 :: string where
  "prompt_py_types_1 =
     [CHR 0xD0, CHR 0x92] @ '' '' @ [CHR 0xD1, CHR 0x87, CHR 0xD1, CHR 0x91, CHR 0xD0,
     CHR 0xBC] @ '' '' @ [CHR 0xD1, CHR 0x80, CHR 0xD0, CHR 0xB0, CHR 0xD0, CHR 0xB7,
     CHR 0xD0, CHR 0xBD, CHR 0xD0, CHR 0xB8, CHR 0xD1, CHR 0x86, CHR 0xD0, CHR 0xB0] @
     '' '' @ [CHR 0xD0, CHR 0xBC, CHR 0xD0, CHR 0xB5, CHR 0xD0, CHR 0xB6, CHR 0xD0,
     CHR 0xB4, CHR 0xD1, CHR 0x83] @ '' list '' @ [CHR 0xD0, CHR 0xB8] @ '' tuple '' @
     [CHR 0xD0, CHR 0xB2] @ '' Python? '' @ [CHR 0xD0, CHR 0x9F, CHR 0xD1, CHR 0x80,
     CHR 0xD0, CHR 0xB8, CHR 0xD0, CHR 0xB2, CHR 0xD0, CHR 0xB5, CHR 0xD0, CHR 0xB4,
     CHR 0xD0, CHR 0xB8] @ '' '' @ [CHR 0xD0, CHR 0xBF, CHR 0xD1, CHR 0x80, CHR 0xD0,
     CHR 0xB8, CHR 0xD0, CHR 0xBC, CHR 0xD0, CHR 0xB5, CHR 0xD1, CHR 0x80] @ ''.''"

definition prompt_py_types_1_simplify :: string where
  "prompt_py_types_1_simplify =
     [CHR 0xD0, CHR 0xA7, CHR 0xD0, CHR 0xB5, CHR 0xD0, CHR 0xBC] @ '' list '' @ [CHR 0xD0,
     CHR 0xBE, CHR 0xD1, CHR 0x82, CHR 0xD0, CHR 0xBB, CHR 0xD0, CHR 0xB8, CHR 0xD1,
     CHR 0x87, CHR 0xD0, CHR 0xB0, CHR 0xD0, CHR 0xB5, CHR 0xD1, CHR 0x82, CHR 0xD1,
     CHR 0x81, CHR 0xD1, CHR 0x8F] @ '' '' @ [CHR 0xD0, CHR 0xBE, CHR 0xD1, CHR 0x82] @
     '' tuple?''"

definition prompt_py_types_1_hint :: string where
  "prompt_py_types_1_hint =
     [CHR 0xD0, CHR 0x9F, CHR 0xD0, CHR 0xBE, CHR 0xD0, CHR 0xB4, CHR 0xD1, CHR 0x81,
     CHR 0xD0, CHR 0xBA, CHR 0xD0, CHR 0xB0, CHR 0xD0, CHR 0xB7, CHR 0xD0, CHR 0xBA,
     CHR 0xD0, CHR 0xB0] @ '': '' @ [CHR 0xD0, CHR 0xBF, CHR 0xD0, CHR 0xBE, CHR 0xD0,
     CHR 0xB4, CHR 0xD1, CHR 0x83, CHR 0xD0, CHR 0xBC, CHR 0xD0, CHR 0xB0, CHR 0xD0,
     CHR 0xB9] @ '' '' @ [CHR 0xD0, CHR 0xBF, CHR 0xD1, CHR 0x80, CHR 0xD0, CHR 0xBE] @
     '' '' @ [CHR 0xD0, CHR 0xB8, CHR 0xD0, CHR 0xB7, CHR 0xD0, CHR 0xBC, CHR 0xD0,
     CHR 0xB5, CHR 0xD0, CHR 0xBD, CHR 0xD1, CHR 0x8F, CHR 0xD0, CHR 0xB5, CHR 0xD0,
     CHR 0xBC, CHR 0xD0, CHR 0xBE, CHR 0xD1, CHR 0x81, CHR 0xD1, CHR 0x82, CHR 0xD1,
     CHR 0x8C] @ '' '' @ [CHR 0xD0, CHR 0xBA, CHR 0xD0, CHR 0xBE, CHR 0xD0, CHR 0xBB,
     CHR 0xD0, CHR 0xBB, CHR 0xD0, CHR 0xB5, CHR 0xD0, CHR 0xBA, CHR 0xD1, CHR 0x86,
     CHR 0xD0, CHR 0xB8, CHR 0xD0, CHR 0xB9] @ ''. '' @ [CHR 0xD0, CHR 0xA7, CHR 0xD0,
     CHR 0xB5, CHR 0xD0, CHR 0xBC] @ '' list '' @ [CHR 0xD0, CHR 0xB8] @ '' tuple '' @
     [CHR 0xD0, CHR 0xBE, CHR 0xD1, CHR 0x82, CHR 0xD0, CHR 0xBB, CHR 0xD0, CHR 0xB8,
     CHR 0xD1, CHR 0x87, CHR 0xD0, CHR 0xB0, CHR 0xD1, CHR 0x8E, CHR 0xD1, CHR 0x82,
     CHR 0xD1, CHR 0x81, CHR 0xD1, CHR 0x8F] @ ''?''"

definition prompt_py_iter_2 :: string where
  "prompt_py_iter_2 =
     [CHR 0xD0, CHR 0xA7, CHR 0xD1, CHR 0x82, CHR 0xD0, CHR 0xBE] @ '' '' @ [CHR 0xD1,
     CHR 0x82, CHR 0xD0, CHR 0xB0, CHR 0xD0, CHR 0xBA, CHR 0xD0, CHR 0xBE, CHR 0xD0,
     CHR 0xB5] @ '' iterable '' @ [CHR 0xD0, CHR 0xB8] @ '' iterator? '' @ [CHR 0xD0,
     CHR 0x9A, CHR 0xD0, CHR 0xB0, CHR 0xD0, CHR 0xBA] @ '' '' @ [CHR 0xD1, CHR 0x80,
     CHR 0xD0, CHR 0xB0, CHR 0xD0, CHR 0xB1, CHR 0xD0, CHR 0xBE, CHR 0xD1, CHR 0x82,
     CHR 0xD0, CHR 0xB0, CHR 0xD0, CHR 0xB5, CHR 0xD1, CHR 0x82] @ '' '' @ [CHR 0xD0,
     CHR 0xBF, CHR 0xD1, CHR 0x80, CHR 0xD0, CHR 0xBE, CHR 0xD1, CHR 0x82, CHR 0xD0,
     CHR 0xBE, CHR 0xD0, CHR 0xBA, CHR 0xD0, CHR 0xBE, CHR 0xD0, CHR 0xBB] @ '' '' @
     [CHR 0xD0, CHR 0xB8, CHR 0xD1, CHR 0x82, CHR 0xD0, CHR 0xB5, CHR 0xD1, CHR 0x80,
     CHR 0xD0, CHR 0xB0, CHR 0xD1, CHR 0x86, CHR 0xD0, CHR 0xB8, CHR 0xD0, CHR 0xB8] @
     ''?''"

definition prompt_py_iter_2_clarify :: string where
  "prompt_py_iter_2_clarify =
     [CHR 0xD0, CHR 0xA3, CHR 0xD1, CHR 0x82, CHR 0xD0, CHR 0xBE, CHR 0xD1, CHR 0x87,
     CHR 0xD0, CHR 0xBD, CHR 0xD0, CHR 0xB8] @ '' '' @ [CHR 0xD1, CHR 0x80, CHR 0xD0,
     CHR 0xB0, CHR 0xD0, CHR 0xB7, CHR 0xD0, CHR 0xBD, CHR 0xD0, CHR 0xB8, CHR 0xD1,
     CHR 0x86, CHR 0xD1, CHR 0x83] @ '' '' @ [CHR 0xD0, CHR 0xBC, CHR 0xD0, CHR 0xB5,
     CHR 0xD0, CHR 0xB6, CHR 0xD0, CHR 0xB4, CHR 0xD1, CHR 0x83] @ '' iterable '' @
     [CHR 0xD0, CHR 0xB8] @ '' iterator '' @ [CHR 0xD0, CHR 0xB8] @ '' '' @ [CHR 0xD0,
     CHR 0xBA, CHR 0xD0, CHR 0xB0, CHR 0xD0, CHR 0xBA] @ '' '' @ [CHR 0xD0, CHR 0xB8,
     CHR 0xD1, CHR 0x85] @ '' '' @ [CHR 0xD0, CHR 0xBF, CHR 0xD0, CHR 0xBE, CHR 0xD0,
     CHR 0xBB, CHR 0xD1, CHR 0x83, CHR 0xD1, CHR 0x87, CHR 0xD0, CHR 0xB8, CHR 0xD1,
     CHR 0x82, CHR 0xD1, CHR 0x8C] @ ''.''"

definition prompt_sql_join_1 :: string where
  "prompt_sql_join_1 =
     [CHR 0xD0, CHR 0xA7, CHR 0xD1, CHR 0x82, CHR 0xD0, CHR 0xBE] @ '' '' @ [CHR 0xD1,
     CHR 0x82, CHR 0xD0, CHR 0xB0, CHR 0xD0, CHR 0xBA, CHR 0xD0, CHR 0xBE, CHR 0xD0,
     CHR 0xB5] @ '' JOIN '' @ [CHR 0xD0, CHR 0xB2] @ '' SQL '' @ [CHR 0xD0, CHR 0xB8] @
     '' '' @ [CHR 0xD0, CHR 0xBA, CHR 0xD0, CHR 0xB0, CHR 0xD0, CHR 0xBA, CHR 0xD0,
     CHR 0xB8, CHR 0xD0, CHR 0xB5] @ '' '' @ [CHR 0xD1, CHR 0x82, CHR 0xD0, CHR 0xB8,
     CHR 0xD0, CHR 0xBF, CHR 0xD1, CHR 0x8B] @ '' JOIN '' @ [CHR 0xD1, CHR 0x82, CHR 0xD1,
     CHR 0x8B] @ '' '' @ [CHR 0xD0, CHR 0xB7, CHR 0xD0, CHR 0xBD, CHR 0xD0, CHR 0xB0,
     CHR 0xD0, CHR 0xB5, CHR 0xD1, CHR 0x88, CHR 0xD1, CHR 0x8C] @ ''?''"

definition prompt_sql_join_1_simplify :: string where
  "prompt_sql_join_1_simplify =
     [CHR 0xD0, CHR 0x9E, CHR 0xD0, CHR 0xB1, CHR 0xD1, CHR 0x8A, CHR 0xD1, CHR 0x8F,
     CHR 0xD1, CHR 0x81, CHR 0xD0, CHR 0xBD, CHR 0xD0, CHR 0xB8] @ '' '' @ [CHR 0xD0,
     CHR 0xBF, CHR 0xD1, CHR 0x80, CHR 0xD0, CHR 0xBE, CHR 0xD1, CHR 0x81, CHR 0xD1,
     CHR 0x82, CHR 0xD1, CHR 0x8B, CHR 0xD0, CHR 0xBC, CHR 0xD0, CHR 0xB8] @ '' '' @
     [CHR 0xD1, CHR 0x81, CHR 0xD0, CHR 0xBB, CHR 0xD0, CHR 0xBE, CHR 0xD0, CHR 0xB2,
     CHR 0xD0, CHR 0xB0, CHR 0xD0, CHR 0xBC, CHR 0xD0, CHR 0xB8] @ '', '' @ [CHR 0xD1,
     CHR 0x87, CHR 0xD1, CHR 0x82, CHR 0xD0, CHR 0xBE] @ '' '' @ [CHR 0xD0, CHR 0xB4,
     CHR 0xD0, CHR 0xB5, CHR 0xD0, CHR 0xBB, CHR 0xD0, CHR 0xB0, CHR 0xD0, CHR 0xB5,
     CHR 0xD1, CHR 0x82] @ '' JOIN '' @ [CHR 0xD0, CHR 0xB2] @ '' SQL.''"

definition prompt_py_oop_3 :: string where
  "prompt_py_oop_3 =
     [CHR 0xD0, CHR 0x9E, CHR 0xD0, CHR 0xB1, CHR 0xD1, CHR 0x8A, CHR 0xD1, CHR 0x8F,
     CHR 0xD1, CHR 0x81, CHR 0xD0, CHR 0xBD, CHR 0xD0, CHR 0xB8] @ '' '' @ [CHR 0xD1,
     CHR 0x80, CHR 0xD0, CHR 0xB0, CHR 0xD0, CHR 0xB7, CHR 0xD0, CHR 0xBD, CHR 0xD0,
     CHR 0xB8, CHR 0xD1, CHR 0x86, CHR 0xD1, CHR 0x83] @ '' '' @ [CHR 0xD0, CHR 0xBC,
     CHR 0xD0, CHR 0xB5, CHR 0xD0, CHR 0xB6, CHR 0xD0, CHR 0xB4, CHR 0xD1, CHR 0x83] @
     '' classmethod '' @ [CHR 0xD0, CHR 0xB8] @ '' staticmethod. '' @ [CHR 0xD0, CHR 0x9A,
     CHR 0xD0, CHR 0xBE, CHR 0xD0, CHR 0xB3, CHR 0xD0, CHR 0xB4, CHR 0xD0, CHR 0xB0] @
     '' '' @ [CHR 0xD0, CHR 0xB8, CHR 0xD1, CHR 0x85] @ '' '' @ [CHR 0xD0, CHR 0xB8,
     CHR 0xD1, CHR 0x81, CHR 0xD0, CHR 0xBF, CHR 0xD0, CHR 0xBE, CHR 0xD0, CHR 0xBB,
     CHR 0xD1, CHR 0x8C, CHR 0xD0, CHR 0xB7, CHR 0xD0, CHR 0xBE, CHR 0xD0, CHR 0xB2,
     CHR 0xD0, CHR 0xB0, CHR 0xD1, CHR 0x82, CHR 0xD1, CHR 0x8C] @ ''?''"

definition prompt_sql_index_3 :: string where
  "prompt_sql_index_3 =
     [CHR 0xD0, CHR 0xA7, CHR 0xD1, CHR 0x82, CHR 0xD0, CHR 0xBE] @ '' '' @ [CHR 0xD1,
     CHR 0x82, CHR 0xD0, CHR 0xB0, CHR 0xD0, CHR 0xBA, CHR 0xD0, CHR 0xBE, CHR 0xD0,
     CHR 0xB5] @ '' '' @ [CHR 0xD0, CHR 0xB8, CHR 0xD0, CHR 0xBD, CHR 0xD0, CHR 0xB4,
     CHR 0xD0, CHR 0xB5, CHR 0xD0, CHR 0xBA, CHR 0xD1, CHR 0x81] @ '' '' @ [CHR 0xD0,
     CHR 0xB2] @ '' SQL '' @ [CHR 0xD0, CHR 0xB8] @ '' '' @ [CHR 0xD0, CHR 0xBA, CHR 0xD0,
     CHR 0xB0, CHR 0xD0, CHR 0xBA, CHR 0xD0, CHR 0xB8, CHR 0xD0, CHR 0xB5] @ '' '' @
     [CHR 0xD0, CHR 0xB5, CHR 0xD1, CHR 0x81, CHR 0xD1, CHR 0x82, CHR 0xD1, CHR 0x8C] @
     '' '' @ [CHR 0xD1, CHR 0x82, CHR 0xD0, CHR 0xB8, CHR 0xD0, CHR 0xBF, CHR 0xD1,
     CHR 0x8B] @ '' '' @ [CHR 0xD0, CHR 0xB8, CHR 0xD0, CHR 0xBD, CHR 0xD0, CHR 0xB4,
     CHR 0xD0, CHR 0xB5, CHR 0xD0, CHR 0xBA, CHR 0xD1, CHR 0x81, CHR 0xD0, CHR 0xBE,
     CHR 0xD0, CHR 0xB2] @ ''?''"

definition prompt_git_rebase_1 :: string where
  "prompt_git_rebase_1 =
     [CHR 0xD0, CHR 0xA7, CHR 0xD1, CHR 0x82, CHR 0xD0, CHR 0xBE] @ '' '' @ [CHR 0xD0,
     CHR 0xB4, CHR 0xD0, CHR 0xB5, CHR 0xD0, CHR 0xBB, CHR 0xD0, CHR 0xB0, CHR 0xD0,
     CHR 0xB5, CHR 0xD1, CHR 0x82] @ '' '' @ [CHR 0xD0, CHR 0xBA, CHR 0xD0, CHR 0xBE,
     CHR 0xD0, CHR 0xBC, CHR 0xD0, CHR 0xB0, CHR 0xD0, CHR 0xBD, CHR 0xD0, CHR 0xB4,
     CHR 0xD0, CHR 0xB0] @ '' git rebase '' @ [CHR 0xD0, CHR 0xB8] @ '' '' @ [CHR 0xD0,
     CHR 0xBA, CHR 0xD0, CHR 0xBE, CHR 0xD0, CHR 0xB3, CHR 0xD0, CHR 0xB4, CHR 0xD0,
     CHR 0xB0] @ '' '' @ [CHR 0xD0, CHR 0xB5, CHR 0xD1, CHR 0x91] @ '' '' @ [CHR 0xD0,
     CHR 0xB8, CHR 0xD1, CHR 0x81, CHR 0xD0, CHR 0xBF, CHR 0xD0, CHR 0xBE, CHR 0xD0,
     CHR 0xBB, CHR 0xD1, CHR 0x8C, CHR 0xD0, CHR 0xB7, CHR 0xD1, CHR 0x83, CHR 0xD1,
     CHR 0x8E, CHR 0xD1, CHR 0x82] @ ''?''"

definition prompt_git_rebase_1_clarify :: string where
  "prompt_git_rebase_1_clarify =
     [CHR 0xD0, CHR 0x9A, CHR 0xD0, CHR 0xBE, CHR 0xD0, CHR 0xB3, CHR 0xD0, CHR 0xB4,
     CHR 0xD0, CHR 0xB0] @ '' '' @ [CHR 0xD0, CHR 0xB1, CHR 0xD1, CHR 0x8B] @ '' '' @
     [CHR 0xD1, CHR 0x82, CHR 0xD1, CHR 0x8B] @ '' '' @ [CHR 0xD0, CHR 0xB2, CHR 0xD1,
     CHR 0x8B, CHR 0xD0, CHR 0xB1, CHR 0xD1, CHR 0x80, CHR 0xD0, CHR 0xB0, CHR 0xD0,
     CHR 0xBB] @ '' rebase '' @ [CHR 0xD0, CHR 0xB2, CHR 0xD0, CHR 0xBC, CHR 0xD0,
     CHR 0xB5, CHR 0xD1, CHR 0x81, CHR 0xD1, CHR 0x82, CHR 0xD0, CHR 0xBE] @ '' merge?''"

definition QUESTION_BANK :: "question list" where
  "QUESTION_BANK =
    [
     \<lparr>question_id = PStr ''py_types_1'', q_topic = ''python_types'', q_difficulty = 1,
      q_type = ''ask'', q_prompt = prompt_py_types_1\<rparr>,
     \<lparr>question_id = PStr ''py_types_1_simplify'', q_topic = ''python_types'', q_difficulty = 1,
      q_type = ''simplify'', q_prompt = prompt_py_types_1_simplify\<rparr>,
     \<lparr>question_id = PStr ''py_types_1_hint'', q_topic = ''python_types'', q_difficulty = 1,
      q_type = ''hint'', q_prompt = prompt_py_types_1_hint\<rparr>,
     \<lparr>question_id = PStr ''py_iter_2'', q_topic = ''python_iterators'', q_difficulty = 2,
      q_type = ''ask'', q_prompt = prompt_py_iter_2\<rparr>,
     \<lparr>question_id = PStr ''py_iter_2_clarify'', q_topic = ''python_iterators'', q_difficulty = 2,
      q_type = ''clarify'', q_prompt = prompt_py_iter_2_clarify\<rparr>,
     \<lparr>question_id = PStr ''sql_join_1'', q_topic = ''sql_joins'', q_difficulty = 1,
      q_type = ''ask'', q_prompt = prompt_sql_join_1\<rparr>,
     \<lparr>question_id = PStr ''sql_join_1_simplify'', q_topic = ''sql_joins'', q_difficulty = 1,
      q_type = ''simplify'', q_prompt = prompt_sql_join_1_simplify\<rparr>,
     \<lparr>question_id = PStr ''py_oop_3'', q_topic = ''python_oop'', q_difficulty = 3,
      q_type = ''ask'', q_prompt = prompt_py_oop_3\<rparr>,
     \<lparr>question_id = PStr ''sql_index_3'', q_topic = ''sql_indexes'', q_difficulty = 3,
      q_type = ''ask'', q_prompt = prompt_sql_index_3\<rparr>,
     \<lparr>question_id = PStr ''git_rebase_1'', q_topic = ''git_basics'', q_difficulty = 1,
      q_type = ''ask'', q_prompt = prompt_git_rebase_1\<rparr>,
     \<lparr>question_id = PStr ''git_rebase_1_clarify'', q_topic = ''git_basics'', q_difficulty = 1,
      q_type = ''clarify'', q_prompt = prompt_git_rebase_1_clarify\<rparr>
    ]"

text \<open>\<open>get_candidates\<close>: three successive list comprehensions; the topic and the type
  filter apply only when the argument is truthy.\<close>

definition get_candidates :: "string option \<Rightarrow> int \<Rightarrow> string option \<Rightarrow> question list" where
  "get_candidates topic difficulty qtype =
     (let candidates = filter (\<lambda>q. q_difficulty q = difficulty) QUESTION_BANK;
          candidates = (if truthy topic
                        then filter (\<lambda>q. Some (q_topic q) = topic) candidates
                        else candidates);
          candidates = (if truthy qtype
                        then filter (\<lambda>q. Some (q_type q) = qtype) candidates
                        else candidates)
      in candidates)"

text \<open>The test \<open>isinstance(qid, str) and qid not in asked_questions\<close>.\<close>

definition unasked :: "string set \<Rightarrow> question \<Rightarrow> bool" where
  "unasked asked_questions q =
     (case question_id q of PStr qid \<Rightarrow> qid \<notin> asked_questions | _ \<Rightarrow> False)"

text \<open>\<open>pick_next_question\<close>: the first candidate passing the test, in bank order.\<close>

definition pick_next_question ::
    "string set \<Rightarrow> string option \<Rightarrow> int \<Rightarrow> string \<Rightarrow> question option" where
  "pick_next_question asked_questions topic difficulty qtype =
     find (unasked asked_questions) (get_candidates topic difficulty (Some qtype))"

text \<open>\<open>get_all_topics\<close>: the sorted set of the bank's topics.\<close>

definition get_all_topics :: "string list" where
  "get_all_topics = sorted_list_of_set (set (map q_topic QUESTION_BANK))"

section \<open>Repetition and topic-loop guards (app/policies/context\_guard.py)\<close>

text \<open>\<open>normalize_topic\<close>: \<open>(topic or "").strip().lower()\<close>.\<close>

definition normalize_topic :: "(string \<Rightarrow> string) \<Rightarrow> string \<Rightarrow> string" where
  "normalize_topic unicode_lower topic = py_lower unicode_lower (py_strip topic)"

definition enforce_no_repeat ::
    "question option \<Rightarrow> string set \<Rightarrow> question list \<Rightarrow> question option" where
  "enforce_no_repeat chosen asked_questions fallback_pool =
     (case chosen of
        None \<Rightarrow> find (unasked asked_questions) fallback_pool
      | Some c \<Rightarrow>
          if unasked asked_questions c then Some c
          else find (unasked asked_questions) fallback_pool)"

definition should_switch_topic :: "string list \<Rightarrow> string list \<Rightarrow> bool" where
  "should_switch_topic last_topics available_topics =
     (if length last_topics < 2 then False
      else if last last_topics \<noteq> last (butlast last_topics) then False
      else list_ex (\<lambda>topic. topic \<noteq> last last_topics) available_topics)"

section \<open>Skill matrix and topic state\<close>

text \<open>
  A skill-matrix entry is \<open>{"status": ..., "evidence": [...]}\<close>; the status is a string
  or \<open>None\<close>. The matrix maps topics to entries.
\<close>

record skill_entry =
  status :: "string option"
  evidence :: "string list"

type_synonym skill_matrix = "string \<rightharpoonup> skill_entry"

text \<open>
  The topic state is a dictionary with the keys \<open>current_topic\<close>, \<open>last_topics\<close>,
  \<open>coverage\<close> and \<open>last_prompts_hashes\<close>. A missing list-valued key reads as the empty
  list and a missing coverage entry as absent.
\<close>

record topic_state =
  current_topic :: "string option"
  last_topics :: "string list"
  coverage :: "string \<rightharpoonup> int"
  last_prompts_hashes :: "string list"

section \<open>Topic selection (app/policies/topic\_manager.py)\<close>

definition status_priority :: "string \<Rightarrow> int" where
  "status_priority s =
     (if s = ''gap'' then 0
      else if s = ''uncertain'' then 1
      else if s = ''unknown'' then 2
      else if s = ''confirmed'' then 3
      else 2)"

text \<open>\<open>str(entry.get("status", "unknown"))\<close> for the entry of a topic: a missing entry
  reads as \<open>"unknown"\<close>, a status of \<open>None\<close> prints as \<open>"None"\<close>.\<close>

definition entry_status_str :: "skill_matrix \<Rightarrow> string \<Rightarrow> string" where
  "entry_status_str skill_matrix topic =
     (case skill_matrix topic of
        None \<Rightarrow> ''unknown''
      | Some entry \<Rightarrow> (case status entry of None \<Rightarrow> ''None'' | Some s \<Rightarrow> s))"

text \<open>
  \<open>select_next_topic\<close>: score every topic, sort by score (Python's sort is stable, as is
  \<open>sort_key\<close>), take the head, and when the last two topics coincide take instead the
  first scored topic that differs from the last one.
\<close>

definition select_next_topic ::
    "(string \<Rightarrow> string) \<Rightarrow> skill_matrix \<Rightarrow> topic_state \<Rightarrow> string" where
  "select_next_topic unicode_lower skill_matrix ts =
     (let all_topics = get_all_topics;
          lasts = last_topics ts;
          scored = map (\<lambda>topic.
                     (status_priority
                        (normalize_topic unicode_lower (entry_status_str skill_matrix topic)),
                      topic)) all_topics;
          scored = sort_key fst scored;
          selected = (case scored of
                        x # _ \<Rightarrow> snd x
                      | [] \<Rightarrow> (case all_topics of t # _ \<Rightarrow> t | [] \<Rightarrow> ''general''))
      in if should_switch_topic lasts all_topics
         then (case find (\<lambda>x. snd x \<noteq> last lasts) scored of
                 Some x \<Rightarrow> snd x
               | None \<Rightarrow> selected)
         else selected)"

section \<open>Difficulty and action type (app/policies/adaptability.py)\<close>

text \<open>
  Python integers are unbounded, so difficulty and delta are \<open>int\<close>.
  The source coerces both arguments with \<open>int(x or default)\<close>: a falsy integer (zero)
  is replaced by the default before the sum is clamped.
\<close>

definition apply_difficulty :: "int \<Rightarrow> int \<Rightarrow> int" where
  "apply_difficulty difficulty delta =
     (let base = (if difficulty = 0 then 1 else difficulty);
          delta_val = (if delta = 0 then 0 else delta);
          new_val = base + delta_val
      in max 1 (min 5 new_val))"

text \<open>The specification's reference function \<open>clamp(x, lo, hi)\<close>.\<close>

definition spec_clamp :: "int \<Rightarrow> int \<Rightarrow> int \<Rightarrow> int" where
  "spec_clamp x lo hi = (if x < lo then lo else if hi < x then hi else x)"

text \<open>
  The evaluator's output as the policy layer reads it. Each block is optional: the
  empty dictionary has none of them. The robustness flags are booleans (the evaluator's
  schema checks it); the two \<open>answer_quality\<close> values are unconstrained JSON.
\<close>

record robustness_flags =
  off_topic :: bool
  role_reversal :: bool
  hallucination_claim :: bool
  evasive :: bool

record answer_quality =
  correctness :: pyval
  confidence :: pyval

record observer_json =
  robustness :: "robustness_flags option"
  answer_quality :: "answer_quality option"
  difficulty_delta :: "int option"
  next_action_topic :: "string option"

definition empty_observer_json :: observer_json where
  "empty_observer_json =
     \<lparr>robustness = None, answer_quality = None, difficulty_delta = None,
      next_action_topic = None\<rparr>"

definition decide_action_type :: "observer_json \<Rightarrow> string option \<Rightarrow> string" where
  "decide_action_type oj prev_action_type =
     (if (case robustness oj of Some r \<Rightarrow> off_topic r | None \<Rightarrow> False) then ''refocus''
      else if (case robustness oj of Some r \<Rightarrow> role_reversal r | None \<Rightarrow> False)
      then ''answer_candidate''
      else
        let corr = (case answer_quality oj of Some a \<Rightarrow> correctness a | None \<Rightarrow> PNone);
            conf = (case answer_quality oj of Some a \<Rightarrow> confidence a | None \<Rightarrow> PNone)
        in if py_in corr [PStr ''wrong'', PStr ''low'', PStr ''incorrect'']
              \<or> py_in conf [PStr ''low'', PInt 0, PInt 1]
           then ''simplify''
           else if py_in corr [PStr ''partial'', PStr ''mixed''] then ''clarify''
           else if prev_action_type = Some ''simplify'' then ''hint''
           else ''ask'')"

section \<open>Route selection (app/policies/router.py)\<close>

record RobustnessDetection =
  det_off_topic :: bool
  det_role_reversal :: bool
  det_hallucination_claim :: bool
  det_evasive :: bool
  det_reason :: string
  det_candidate_question :: "string option"
  det_suspicious_claim :: "string option"

definition choose_route :: "bool \<Rightarrow> RobustnessDetection \<Rightarrow> string" where
  "choose_route stop_requested det =
     (if stop_requested then ''final''
      else if det_role_reversal det then ''answer_candidate''
      else if det_hallucination_claim det then ''hallucination''
      else if det_off_topic det then ''refocus''
      else ''normal'')"

section \<open>Loop guards (app/memory/controls.py)\<close>

text \<open>
  \<open>_hash_prompt\<close> is the SHA-1 hex digest of the prompt's UTF-8 bytes, a library function;
  the model takes it as the parameter \<open>hash_prompt\<close>. \<open>detect_loop\<close> mutates the topic
  state it is given, so the model returns the new topic state with the verdict.
  \<open>len(set(xs)) == 1\<close> is read as: removing duplicates leaves one element.
\<close>

definition detect_loop :: "(string \<Rightarrow> string) \<Rightarrow> topic_state \<Rightarrow> string \<Rightarrow> bool \<times> topic_state" where
  "detect_loop hash_prompt ts new_prompt =
     (let hashes = last_prompts_hashes ts;
          new_hash = hash_prompt new_prompt;
          hashes = hashes @ [new_hash];
          ts' = ts\<lparr>last_prompts_hashes := py_tail 5 hashes\<rparr>
      in if length hashes \<ge> 3 \<and> length (remdups (py_tail 3 hashes)) = 1
         then (True, ts') else (False, ts'))"

definition break_loop ::
    "(string \<Rightarrow> string) \<Rightarrow> skill_matrix \<Rightarrow> topic_state \<Rightarrow> string" where
  "break_loop unicode_lower skill_matrix ts = select_next_topic unicode_lower skill_matrix ts"

section \<open>Skill-matrix updates (app/memory/skills.py)\<close>

text \<open>
  An update item is a dictionary read with \<open>item.get\<close>: each of the three fields is a
  string or absent. \<open>skill_update_step\<close> is the body of the \<open>for\<close> loop and
  \<open>apply_skill_updates\<close> runs it over the updates from left to right.
\<close>

record skill_update =
  su_topic :: "string option"
  su_status :: "string option"
  su_evidence :: "string option"

definition skill_update_step :: "skill_matrix \<Rightarrow> skill_update \<Rightarrow> skill_matrix" where
  "skill_update_step updated item =
     (case su_topic item of
        None \<Rightarrow> updated
      | Some topic \<Rightarrow>
          if topic = [] then updated
          else
            let entry = (case updated topic of
                           Some e \<Rightarrow> e
                         | None \<Rightarrow> \<lparr>status = None, evidence = []\<rparr>);
                current_status = status entry;
                evidence_list = evidence entry;
                evidence_list = (case su_evidence item of
                                   Some ev \<Rightarrow> if ev \<noteq> [] then evidence_list @ [ev]
                                             else evidence_list
                                 | None \<Rightarrow> evidence_list);
                new_status =
                  (if current_status = Some ''confirmed'' \<and> su_status item \<noteq> Some ''confirmed''
                   then current_status
                   else if truthy (su_status item) then su_status item
                   else current_status)
            in updated(topic \<mapsto> \<lparr>status = new_status, evidence = evidence_list\<rparr>))"

definition apply_skill_updates :: "skill_matrix \<Rightarrow> skill_update list \<Rightarrow> skill_matrix" where
  "apply_skill_updates skill_matrix updates = foldl skill_update_step skill_matrix updates"

section \<open>Structured calls (app/llm/json\_parser.py, app/llm/retry.py)\<close>

text \<open>
  The language model is an external capability. It is modelled as a deterministic function
  of the requests it has received so far (the last one being the current request), which
  covers every scripted fake; \<open>CallFails\<close> is an exception raised by the call,
  \<open>NoContent\<close> a response without content (carrying the response's printed form).
  The call log is the state threaded through the subsystem; each request is tagged with the
  function that issued it, a tag the capability itself never sees.

  A schema is what the code uses of it: \<open>parse_json_with_schema(text, schema)\<close>, which is
  JSON extraction followed by validation and either yields a value or raises
  \<open>JsonSchemaValidationError\<close> (here \<open>None\<close>), and the JSON text of the schema.
  \<open>time.sleep\<close> and the timeout attribute have no effect on the values modelled.
\<close>

datatype lc_message = SystemMessage string | HumanMessage string | AIMessage string

datatype llm_reply = Content string | NoContent string | CallFails

datatype call_kind = FreshCall | RepairCall

type_synonym call_log = "(call_kind \<times> lc_message list) list"

type_synonym llm = "lc_message list list \<Rightarrow> llm_reply"

record 'a schema =
  parse_json_with_schema :: "string \<Rightarrow> 'a option"
  schema_to_json :: string

datatype call_error =
    JsonSchemaValidationError string "string option"
  | TransportError
  | ValueError
  | AssertionError

definition invoke :: "llm \<Rightarrow> call_kind \<Rightarrow> lc_message list \<Rightarrow> call_log \<Rightarrow> llm_reply \<times> call_log" where
  "invoke llm kind msgs calls = (let calls' = calls @ [(kind, msgs)] in (llm (map snd calls'), calls'))"

text \<open>\<open>_convert_messages\<close>: role/content pairs to chat messages; an unknown role is sent
  as a human message.\<close>

definition convert_messages :: "(string \<times> string) list \<Rightarrow> lc_message list" where
  "convert_messages messages =
     map (\<lambda>(role, content).
            if role = ''system'' then SystemMessage content
            else if role = ''user'' then HumanMessage content
            else if role = ''assistant'' then AIMessage content
            else HumanMessage content) messages"

text \<open>The repair instruction (Russian: "You returned invalid JSON. Return only valid
  JSON, strictly by the schema. No text before or after. No markdown.") and the closing
  word of the repair request ("Answer").\<close>

definition repair_instruction :: string where
  "repair_instruction =
     [CHR 0xD0, CHR 0xA2, CHR 0xD1, CHR 0x8B] @ '' '' @ [CHR 0xD0, CHR 0xB2, CHR 0xD0,
     CHR 0xB5, CHR 0xD1, CHR 0x80, CHR 0xD0, CHR 0xBD, CHR 0xD1, CHR 0x83, CHR 0xD0,
     CHR 0xBB] @ '' '' @ [CHR 0xD0, CHR 0xBD, CHR 0xD0, CHR 0xB5, CHR 0xD0, CHR 0xB2,
     CHR 0xD0, CHR 0xB0, CHR 0xD0, CHR 0xBB, CHR 0xD0, CHR 0xB8, CHR 0xD0, CHR 0xB4,
     CHR 0xD0, CHR 0xBD, CHR 0xD1, CHR 0x8B, CHR 0xD0, CHR 0xB9] @ '' JSON. '' @ [CHR 0xD0,
     CHR 0x92, CHR 0xD0, CHR 0xB5, CHR 0xD1, CHR 0x80, CHR 0xD0, CHR 0xBD, CHR 0xD0,
     CHR 0xB8] @ '' '' @ [CHR 0xD1, CHR 0x82, CHR 0xD0, CHR 0xBE, CHR 0xD0, CHR 0xBB,
     CHR 0xD1, CHR 0x8C, CHR 0xD0, CHR 0xBA, CHR 0xD0, CHR 0xBE] @ '' '' @ [CHR 0xD0,
     CHR 0xB2, CHR 0xD0, CHR 0xB0, CHR 0xD0, CHR 0xBB, CHR 0xD0, CHR 0xB8, CHR 0xD0,
     CHR 0xB4, CHR 0xD0, CHR 0xBD, CHR 0xD1, CHR 0x8B, CHR 0xD0, CHR 0xB9] @ '' JSON, '' @
     [CHR 0xD1, CHR 0x81, CHR 0xD1, CHR 0x82, CHR 0xD1, CHR 0x80, CHR 0xD0, CHR 0xBE,
     CHR 0xD0, CHR 0xB3, CHR 0xD0, CHR 0xBE] @ '' '' @ [CHR 0xD0, CHR 0xBF, CHR 0xD0,
     CHR 0xBE] @ '' '' @ [CHR 0xD1, CHR 0x81, CHR 0xD1, CHR 0x85, CHR 0xD0, CHR 0xB5,
     CHR 0xD0, CHR 0xBC, CHR 0xD0, CHR 0xB5] @ ''. '' @ [CHR 0xD0, CHR 0x9D, CHR 0xD0,
     CHR 0xB8, CHR 0xD0, CHR 0xBA, CHR 0xD0, CHR 0xB0, CHR 0xD0, CHR 0xBA, CHR 0xD0,
     CHR 0xBE, CHR 0xD0, CHR 0xB3, CHR 0xD0, CHR 0xBE] @ '' '' @ [CHR 0xD1, CHR 0x82,
     CHR 0xD0, CHR 0xB5, CHR 0xD0, CHR 0xBA, CHR 0xD1, CHR 0x81, CHR 0xD1, CHR 0x82,
     CHR 0xD0, CHR 0xB0] @ '' '' @ [CHR 0xD0, CHR 0xB4, CHR 0xD0, CHR 0xBE] @ '' '' @
     [CHR 0xD0, CHR 0xB8, CHR 0xD0, CHR 0xBB, CHR 0xD0, CHR 0xB8] @ '' '' @ [CHR 0xD0,
     CHR 0xBF, CHR 0xD0, CHR 0xBE, CHR 0xD1, CHR 0x81, CHR 0xD0, CHR 0xBB, CHR 0xD0,
     CHR 0xB5] @ ''. '' @ [CHR 0xD0, CHR 0x9D, CHR 0xD0, CHR 0xB8, CHR 0xD0, CHR 0xBA,
     CHR 0xD0, CHR 0xB0, CHR 0xD0, CHR 0xBA, CHR 0xD0, CHR 0xBE, CHR 0xD0, CHR 0xB3,
     CHR 0xD0, CHR 0xBE] @ '' markdown.''"

definition repair_request :: "string \<Rightarrow> string \<Rightarrow> lc_message list" where
  "repair_request bad_text schema_json =
     [SystemMessage repair_instruction,
      HumanMessage (''Schema:'' @ [CHR 0x0A] @ schema_json @ [CHR 0x0A, CHR 0x0A] @
                    ''Bad JSON:'' @ [CHR 0x0A] @ bad_text @ [CHR 0x0A, CHR 0x0A] @
                    [CHR 0xD0, CHR 0x9E, CHR 0xD1, CHR 0x82, CHR 0xD0, CHR 0xB2, CHR 0xD0,
                    CHR 0xB5, CHR 0xD1, CHR 0x82] @ '':'')]"

definition repair_to_valid_json ::
    "llm \<Rightarrow> string \<Rightarrow> string \<Rightarrow> call_log \<Rightarrow> (call_error + string) \<times> call_log" where
  "repair_to_valid_json llm bad_text schema_json calls =
     (case invoke llm RepairCall (repair_request bad_text schema_json) calls of
        (CallFails, calls') \<Rightarrow> (Inl TransportError, calls')
      | (NoContent r, calls') \<Rightarrow> (Inl ValueError, calls')
      | (Content content, calls') \<Rightarrow> (Inr (py_strip content), calls'))"

text \<open>
  \<open>call_llm_for_json\<close>. The \<open>for\<close> loop over \<open>range(max_attempts)\<close> is the function
  \<open>call_llm_attempts\<close> over the list of attempt indices. Every path through the loop body
  returns, raises or breaks, so the body runs for the first index only; with no index at
  all the final assertion fails.
\<close>

fun call_llm_attempts ::
    "llm \<Rightarrow> lc_message list \<Rightarrow> 'a schema \<Rightarrow> int \<Rightarrow> nat list \<Rightarrow> call_log
     \<Rightarrow> (call_error + 'a) \<times> call_log" where
  "call_llm_attempts llm converted schema max_attempts [] calls = (Inl AssertionError, calls)"
| "call_llm_attempts llm converted schema max_attempts (attempt # rest) calls =
     (case invoke llm FreshCall converted calls of
        (CallFails, calls1) \<Rightarrow> (Inl TransportError, calls1)
      | (NoContent r, calls1) \<Rightarrow> (Inl (JsonSchemaValidationError r None), calls1)
      | (Content content, calls1) \<Rightarrow>
          (case parse_json_with_schema schema content of
             Some v \<Rightarrow> (Inr v, calls1)
           | None \<Rightarrow>
               if int attempt = max_attempts - 1
               then (Inl (JsonSchemaValidationError content None), calls1)
               else
                 (case repair_to_valid_json llm content (schema_to_json schema) calls1 of
                    (Inl e, calls2) \<Rightarrow> (Inl e, calls2)
                  | (Inr repaired, calls2) \<Rightarrow>
                      (case parse_json_with_schema schema repaired of
                         Some v \<Rightarrow> (Inr v, calls2)
                       | None \<Rightarrow>
                           (Inl (JsonSchemaValidationError content (Some repaired)), calls2)))))"

definition call_llm_for_json ::
    "llm \<Rightarrow> (string \<times> string) list \<Rightarrow> 'a schema \<Rightarrow> int \<Rightarrow> call_log
     \<Rightarrow> (call_error + 'a) \<times> call_log" where
  "call_llm_for_json llm messages schema max_attempts calls =
     call_llm_attempts llm (convert_messages messages) schema max_attempts
       [0 ..< nat max_attempts] calls"

text \<open>\<open>_clip\<close> with its default limit of 800.\<close>

definition clip :: "string option \<Rightarrow> string option" where
  "clip text =
     (case text of
        None \<Rightarrow> None
      | Some t \<Rightarrow> Some (if py_len t \<le> 800 then t else py_take 800 t @ ''...''))"

record LLMCallError =
  err_role :: string
  err_last_response :: "string option"
  err_cause :: "call_error option"

text \<open>
  \<open>safe_call_for_json\<close>: each attempt is a call of \<open>call_llm_for_json\<close> with
  \<open>max_attempts=1\<close>; a validation error records the offending text, any other exception
  only the cause; after the last attempt the typed failure is raised.
\<close>

fun safe_call_attempts ::
    "llm \<Rightarrow> (string \<times> string) list \<Rightarrow> 'a schema \<Rightarrow> nat list
     \<Rightarrow> call_error option \<Rightarrow> string option \<Rightarrow> call_log
     \<Rightarrow> ((call_error option \<times> string option) + 'a) \<times> call_log" where
  "safe_call_attempts llm messages schema [] last_err last_response calls =
     (Inl (last_err, last_response), calls)"
| "safe_call_attempts llm messages schema (attempt # rest) last_err last_response calls =
     (case call_llm_for_json llm messages schema 1 calls of
        (Inr result, calls') \<Rightarrow> (Inr result, calls')
      | (Inl exc, calls') \<Rightarrow>
          (case exc of
             JsonSchemaValidationError original_text repaired_text \<Rightarrow>
               safe_call_attempts llm messages schema rest
                 (Some exc) (clip (Some original_text)) calls'
           | _ \<Rightarrow>
               safe_call_attempts llm messages schema rest (Some exc) last_response calls'))"

definition safe_call_for_json ::
    "llm \<Rightarrow> (string \<times> string) list \<Rightarrow> 'a schema \<Rightarrow> int \<Rightarrow> string \<Rightarrow> call_log
     \<Rightarrow> (LLMCallError + 'a) \<times> call_log" where
  "safe_call_for_json llm messages schema max_attempts role calls =
     (case safe_call_attempts llm messages schema [0 ..< nat max_attempts] None None calls of
        (Inr result, calls') \<Rightarrow> (Inr result, calls')
      | (Inl (last_err, last_response), calls') \<Rightarrow>
          (Inl \<lparr>err_role = role, err_last_response = clip last_response,
                err_cause = last_err\<rparr>, calls'))"

section \<open>The policy-update step (app/graph/nodes.py)\<close>

text \<open>
  The fields of the session state that \<open>policy_update_node\<close> reads. An optional field
  is \<open>None\<close> when the key is missing (or, for the evaluator output, not a dictionary).
  The step takes the two runtime parameters introduced above, the prompt hash and the
  lower-casing of non-ASCII strings.
\<close>

record state =
  st_observer_json :: "observer_json option"
  st_action_type :: "string option"
  st_route :: "string option"
  st_difficulty :: "int option"
  st_topic_state :: "topic_state option"
  st_skill_matrix :: skill_matrix
  st_asked_questions :: "string list"

definition empty_topic_state :: topic_state where
  "empty_topic_state =
     \<lparr>current_topic = None, last_topics = [], coverage = Map.empty,
      last_prompts_hashes = []\<rparr>"

text \<open>The partial update returned by the step (its \<open>planned_response\<close> is always
  \<open>None\<close> and is left out).\<close>

record policy_update =
  pu_difficulty :: int
  pu_action_type :: string
  pu_planned_question :: "question option"
  pu_topic_state :: topic_state

definition special_routes :: "string set" where
  "special_routes = {''answer_candidate'', ''refocus'', ''hallucination''}"

text \<open>The \<open>for level in range(1, 6)\<close> loop: the first level with an unasked question wins.\<close>

fun widen_difficulty :: "string set \<Rightarrow> int list \<Rightarrow> question option" where
  "widen_difficulty asked_questions [] = None"
| "widen_difficulty asked_questions (level # rest) =
     (case enforce_no_repeat None asked_questions (get_candidates None level None) of
        Some q \<Rightarrow> Some q
      | None \<Rightarrow> widen_difficulty asked_questions rest)"

text \<open>
  The question-planning lines of the step, before loop detection: the exact pick, then
  the fallback pool (\<open>A or B\<close> on lists takes \<open>B\<close> when \<open>A\<close> is empty), then the scan
  over the difficulty levels.
\<close>

definition plan_question :: "string set \<Rightarrow> string \<Rightarrow> int \<Rightarrow> string \<Rightarrow> question option" where
  "plan_question asked_questions selected_topic difficulty followup_type =
     (let planned_question =
            pick_next_question asked_questions (Some selected_topic) difficulty followup_type;
          planned_question =
            (case planned_question of
               Some q \<Rightarrow> Some q
             | None \<Rightarrow>
                 let fallback_pool =
                       (if get_candidates None difficulty (Some followup_type) \<noteq> []
                        then get_candidates None difficulty (Some followup_type)
                        else get_candidates None difficulty None)
                 in enforce_no_repeat None asked_questions fallback_pool);
          planned_question =
            (case planned_question of
               Some q \<Rightarrow> Some q
             | None \<Rightarrow> widen_difficulty asked_questions [1, 2, 3, 4, 5])
      in planned_question)"

definition policy_update_node ::
    "(string \<Rightarrow> string) \<Rightarrow> (string \<Rightarrow> string) \<Rightarrow> state \<Rightarrow> policy_update" where
  "policy_update_node hash_prompt unicode_lower st =
     (let oj = (case st_observer_json st of Some j \<Rightarrow> j | None \<Rightarrow> empty_observer_json);
          prev_action = st_action_type st;
          route = (case st_route st of
                     Some r \<Rightarrow> if r \<noteq> [] then r else ''normal''
                   | None \<Rightarrow> ''normal'');
          action_type = (if route \<in> special_routes then route
                         else decide_action_type oj prev_action);
          difficulty = apply_difficulty
                         (case st_difficulty st of Some d \<Rightarrow> d | None \<Rightarrow> 1)
                         (case difficulty_delta oj of Some d \<Rightarrow> d | None \<Rightarrow> 0);
          ts = (case st_topic_state st of Some t \<Rightarrow> t | None \<Rightarrow> empty_topic_state);
          lasts = last_topics ts;
          soft_topic = (case next_action_topic oj of
                          Some t \<Rightarrow>
                            if t \<noteq> [] then Some (normalize_topic unicode_lower t) else None
                        | None \<Rightarrow> None);
          skill_matrix = st_skill_matrix st;
          selected_topic = select_next_topic unicode_lower skill_matrix ts;
          selected_topic = (if truthy soft_topic \<and> the soft_topic \<notin> set (py_tail 2 lasts)
                            then the soft_topic else selected_topic);
          asked_questions = set (st_asked_questions st);
          followup_type =
            (if action_type \<in> special_routes then ''ask''
             else if action_type \<in> {''ask'', ''clarify'', ''simplify'', ''hint''}
             then action_type else ''ask'');
          planned_question = plan_question asked_questions selected_topic difficulty followup_type;
          (selected_topic, planned_question, ts) =
            (case planned_question of
               None \<Rightarrow> (selected_topic, planned_question, ts)
             | Some q \<Rightarrow>
                 (case detect_loop hash_prompt ts (q_prompt q) of
                    (True, ts') \<Rightarrow>
                      let sel = break_loop unicode_lower skill_matrix ts'
                      in (sel,
                          pick_next_question asked_questions (Some sel) difficulty followup_type,
                          ts')
                  | (False, ts') \<Rightarrow> (selected_topic, planned_question, ts')));
          ts = (if selected_topic \<noteq> []
                then ts\<lparr>current_topic := Some selected_topic,
                        last_topics := py_tail 5 (lasts @ [selected_topic]),
                        coverage := (coverage ts)
                          (selected_topic \<mapsto>
                             (case coverage ts selected_topic of Some c \<Rightarrow> c | None \<Rightarrow> 0) + 1)\<rparr>
                else ts)
      in \<lparr>pu_difficulty = difficulty, pu_action_type = action_type,
          pu_planned_question = planned_question, pu_topic_state = ts\<rparr>)"

section \<open>Skill-matrix updates on an explicit store\<close>

text \<open>
  Whether \<open>apply_skill_updates\<close> mutates its argument depends on which dictionaries and
  lists are shared, so here the function is modelled again over a store of objects:
  an address is an index into the store, allocation appends, and mutation replaces the
  object at an address. Three kinds of object occur: the matrix dictionary (topic to
  entry address), an entry dictionary (its status and the address of its evidence
  list) and an evidence list. A read that finds no object of the expected kind has no
  counterpart in a well-formed store; the model then yields \<open>None\<close>.
\<close>

type_synonym addr = nat

datatype obj =
    DictObj "string \<rightharpoonup> addr"
  | EntryObj "string option" addr
  | ListObj "string list"

type_synonym heap = "obj list"

definition lookup :: "heap \<Rightarrow> addr \<Rightarrow> obj option" where
  "lookup h a = (if a < length h then Some (h ! a) else None)"

definition alloc :: "heap \<Rightarrow> obj \<Rightarrow> heap \<times> addr" where
  "alloc h v = (h @ [v], length h)"

text \<open>
  The loop body on the store, for the dictionary \<open>updated\<close> at address \<open>u\<close>. The default
  entry \<open>{"status": None, "evidence": []}\<close> is built before \<open>updated.get\<close> is called;
  \<open>list(...)\<close> allocates the copy that \<open>append\<close> then mutates; the new entry is a new
  dictionary; \<open>updated[topic] = ...\<close> mutates the dictionary at \<open>u\<close>. Temporaries
  that are never stored (the default list of \<open>entry.get("evidence", [])\<close>, the empty
  dictionary of \<open>skill_matrix or {}\<close>) are not allocated.
\<close>

definition heap_update_step :: "addr \<Rightarrow> heap \<Rightarrow> skill_update \<Rightarrow> heap option" where
  "heap_update_step u h item =
     (case su_topic item of
        None \<Rightarrow> Some h
      | Some topic \<Rightarrow>
          if topic = [] then Some h
          else
            (case lookup h u of
               Some (DictObj m) \<Rightarrow>
                 let (h1, default_evidence) = alloc h (ListObj []);
                     (h2, default_entry) = alloc h1 (EntryObj None default_evidence);
                     entry = (case m topic of Some a \<Rightarrow> a | None \<Rightarrow> default_entry)
                 in (case lookup h2 entry of
                       Some (EntryObj current_status ev) \<Rightarrow>
                         (case lookup h2 ev of
                            Some (ListObj xs) \<Rightarrow>
                              let (h3, evidence_list) = alloc h2 (ListObj xs);
                                  h4 = (case su_evidence item of
                                          Some e \<Rightarrow>
                                            if e \<noteq> []
                                            then h3[evidence_list := ListObj (xs @ [e])]
                                            else h3
                                        | None \<Rightarrow> h3);
                                  new_status =
                                    (if current_status = Some ''confirmed''
                                        \<and> su_status item \<noteq> Some ''confirmed''
                                     then current_status
                                     else if truthy (su_status item) then su_status item
                                     else current_status);
                                  (h5, new_entry) = alloc h4 (EntryObj new_status evidence_list)
                              in Some (h5[u := DictObj (m(topic \<mapsto> new_entry))])
                          | _ \<Rightarrow> None)
                     | _ \<Rightarrow> None)
             | _ \<Rightarrow> None))"

fun heap_updates :: "addr \<Rightarrow> heap \<Rightarrow> skill_update list \<Rightarrow> heap option" where
  "heap_updates u h [] = Some h"
| "heap_updates u h (item # rest) =
     (case heap_update_step u h item of
        None \<Rightarrow> None
      | Some h' \<Rightarrow> heap_updates u h' rest)"

text \<open>
  The whole function: \<open>dict(skill_matrix or {})\<close> allocates a shallow copy of the
  argument (of an empty dictionary when the argument is \<open>None\<close>), the loop runs on the
  copy, and the copy's address is returned.
\<close>

definition apply_skill_updates_heap ::
    "heap \<Rightarrow> addr option \<Rightarrow> skill_update list \<Rightarrow> (heap \<times> addr) option" where
  "apply_skill_updates_heap h skill_matrix updates =
     (case (case skill_matrix of
              None \<Rightarrow> Some Map.empty
            | Some a \<Rightarrow> (case lookup h a of Some (DictObj m) \<Rightarrow> Some m | _ \<Rightarrow> None)) of
        None \<Rightarrow> None
      | Some m \<Rightarrow>
          let (h1, updated) = alloc h (DictObj m)
          in (case heap_updates updated h1 updates of
                None \<Rightarrow> None
              | Some h' \<Rightarrow> Some (h', updated)))"

text \<open>What a store holds at a matrix address, read back as a skill matrix; and the
  stores in which a matrix argument is well formed.\<close>

definition abs_entry :: "heap \<Rightarrow> addr \<Rightarrow> skill_entry option" where
  "abs_entry h e =
     (case lookup h e of
        Some (EntryObj s l) \<Rightarrow>
          (case lookup h l of
             Some (ListObj xs) \<Rightarrow> Some \<lparr>status = s, evidence = xs\<rparr>
           | _ \<Rightarrow> None)
      | _ \<Rightarrow> None)"

definition abs_matrix :: "heap \<Rightarrow> addr option \<Rightarrow> skill_matrix" where
  "abs_matrix h a =
     (case a of
        None \<Rightarrow> Map.empty
      | Some a' \<Rightarrow>
          (case lookup h a' of
             Some (DictObj m) \<Rightarrow> (\<lambda>t. case m t of None \<Rightarrow> None | Some e \<Rightarrow> abs_entry h e)
           | _ \<Rightarrow> Map.empty))"

definition wf_dict :: "heap \<Rightarrow> (string \<rightharpoonup> addr) \<Rightarrow> bool" where
  "wf_dict h m = (\<forall>t e. m t = Some e \<longrightarrow> abs_entry h e \<noteq> None)"

definition wf_matrix :: "heap \<Rightarrow> addr option \<Rightarrow> bool" where
  "wf_matrix h a =
     (case a of
        None \<Rightarrow> True
      | Some a' \<Rightarrow> (case lookup h a' of Some (DictObj m) \<Rightarrow> wf_dict h m | _ \<Rightarrow> False))"

text \<open>The entry of a topic in the dictionary at \<open>r\<close>, and its evidence list, lie at
  addresses from \<open>n\<close> on.\<close>

definition fresh_entry :: "nat \<Rightarrow> heap \<Rightarrow> addr \<Rightarrow> string \<Rightarrow> bool" where
  "fresh_entry n h r t =
     (case lookup h r of
        Some (DictObj m) \<Rightarrow>
          (case m t of
             Some e \<Rightarrow> n \<le> e \<and> (case lookup h e of Some (EntryObj s l) \<Rightarrow> n \<le> l | _ \<Rightarrow> False)
           | None \<Rightarrow> False)
      | _ \<Rightarrow> False)"

text \<open>The entry of a topic in the dictionary at \<open>r\<close> is the very entry (same address)
  that the dictionary at \<open>a\<close> holds for it.\<close>

definition shared_entry :: "heap \<Rightarrow> addr \<Rightarrow> addr \<Rightarrow> string \<Rightarrow> bool" where
  "shared_entry h a r t =
     (case (lookup h a, lookup h r) of
        (Some (DictObj m), Some (DictObj m')) \<Rightarrow> m' t = m t
      | _ \<Rightarrow> False)"

text \<open>The status and the evidence list that the loop body computes for an entry.\<close>

definition next_status :: "string option \<Rightarrow> string option \<Rightarrow> string option" where
  "next_status current_status new =
     (if current_status = Some ''confirmed'' \<and> new \<noteq> Some ''confirmed'' then current_status
      else if truthy new then new else current_status)"

definition next_evidence :: "string list \<Rightarrow> string option \<Rightarrow> string list" where
  "next_evidence xs ev =
     (case ev of Some e \<Rightarrow> if e \<noteq> [] then xs @ [e] else xs | None \<Rightarrow> xs)"

section \<open>Reference definitions and example inputs\<close>

text \<open>The session state built by the command-line entry point (app/main.py) before the
  first turn, restricted to the fields modelled here.\<close>

definition initial_state :: state where
  "initial_state =
     \<lparr>st_observer_json = Some empty_observer_json,
      st_action_type = None,
      st_route = Some ''normal'',
      st_difficulty = Some 1,
      st_topic_state = Some empty_topic_state,
      st_skill_matrix = Map.empty,
      st_asked_questions = []\<rparr>"

text \<open>A detection with no flag raised, as \<open>detect_robustness\<close> reports it.\<close>

definition clean_detection :: RobustnessDetection where
  "clean_detection =
     \<lparr>det_off_topic = False, det_role_reversal = False, det_hallucination_claim = False,
      det_evasive = False, det_reason = ''no issues detected'',
      det_candidate_question = None, det_suspicious_claim = None\<rparr>"

text \<open>An evaluator output with no flag raised and the given answer quality.\<close>

definition clean_flags :: robustness_flags where
  "clean_flags =
     \<lparr>off_topic = False, role_reversal = False, hallucination_claim = False, evasive = False\<rparr>"

definition observed :: "pyval \<Rightarrow> pyval \<Rightarrow> observer_json" where
  "observed corr conf =
     \<lparr>robustness = Some clean_flags,
      answer_quality = Some \<lparr>correctness = corr, confidence = conf\<rparr>,
      difficulty_delta = Some 0,
      next_action_topic = None\<rparr>"

text \<open>The evidence strings that a list of updates carries for one topic, in order.\<close>

definition collected_evidence :: "string \<Rightarrow> skill_update list \<Rightarrow> string list" where
  "collected_evidence topic updates =
     concat (map (\<lambda>item. if su_topic item = Some topic
                          then (case su_evidence item of
                                  Some ev \<Rightarrow> if ev \<noteq> [] then [ev] else []
                                | None \<Rightarrow> [])
                          else []) updates)"

definition evidence_of :: "skill_matrix \<Rightarrow> string \<Rightarrow> string list" where
  "evidence_of m topic = (case m topic of Some e \<Rightarrow> evidence e | None \<Rightarrow> [])"

definition status_of :: "skill_matrix \<Rightarrow> string \<Rightarrow> string option" where
  "status_of m topic = (case m topic of Some e \<Rightarrow> status e | None \<Rightarrow> None)"

text \<open>
  The relaxation order as the specification words it: the exact filter, then the type
  constraint dropped, then the topic constraint dropped, then every difficulty from 1
  to 5 in order; the first unasked question in that order is planned.
\<close>

definition spec_plan_question :: "string set \<Rightarrow> string \<Rightarrow> int \<Rightarrow> string \<Rightarrow> question option" where
  "spec_plan_question asked_questions topic difficulty qtype =
     find (unasked asked_questions)
       (get_candidates (Some topic) difficulty (Some qtype)
        @ get_candidates (Some topic) difficulty None
        @ get_candidates None difficulty None
        @ concat (map (\<lambda>level. get_candidates None level None) [1, 2, 3, 4, 5]))"

text \<open>
  The conditions of the action-type chain, as the evaluator's output encodes them:
  the two robustness flags; a low answer quality (correctness one of \<open>"wrong"\<close>,
  \<open>"low"\<close>, \<open>"incorrect"\<close>, or confidence one of \<open>"low"\<close>, \<open>0\<close>, \<open>1\<close>); a partial
  answer (correctness \<open>"partial"\<close> or \<open>"mixed"\<close>).
\<close>

definition flag_off_topic :: "observer_json \<Rightarrow> bool" where
  "flag_off_topic oj = (case robustness oj of Some r \<Rightarrow> off_topic r | None \<Rightarrow> False)"

definition flag_role_reversal :: "observer_json \<Rightarrow> bool" where
  "flag_role_reversal oj = (case robustness oj of Some r \<Rightarrow> role_reversal r | None \<Rightarrow> False)"

definition reported_correctness :: "observer_json \<Rightarrow> pyval" where
  "reported_correctness oj =
     (case answer_quality oj of Some a \<Rightarrow> correctness a | None \<Rightarrow> PNone)"

definition reported_confidence :: "observer_json \<Rightarrow> pyval" where
  "reported_confidence oj =
     (case answer_quality oj of Some a \<Rightarrow> confidence a | None \<Rightarrow> PNone)"

definition low_quality :: "observer_json \<Rightarrow> bool" where
  "low_quality oj =
     (py_in (reported_correctness oj) [PStr ''wrong'', PStr ''low'', PStr ''incorrect'']
      \<or> py_in (reported_confidence oj) [PStr ''low'', PInt 0, PInt 1])"

definition partial_quality :: "observer_json \<Rightarrow> bool" where
  "partial_quality oj = py_in (reported_correctness oj) [PStr ''partial'', PStr ''mixed'']"



text \<open>
  The values the policy-update step computes on the way to the planned question: the
  evaluator output and topic state it reads, the adapted difficulty, the follow-up type
  derived from the recorded action type, and the selected topic (the ranking's choice
  unless the evaluator's suggested topic overrides it).
\<close>

definition step_observer_json :: "state \<Rightarrow> observer_json" where
  "step_observer_json st =
     (case st_observer_json st of Some j \<Rightarrow> j | None \<Rightarrow> empty_observer_json)"

definition step_topic_state :: "state \<Rightarrow> topic_state" where
  "step_topic_state st =
     (case st_topic_state st of Some t \<Rightarrow> t | None \<Rightarrow> empty_topic_state)"

definition step_difficulty :: "state \<Rightarrow> int" where
  "step_difficulty st =
     apply_difficulty (case st_difficulty st of Some d \<Rightarrow> d | None \<Rightarrow> 1)
       (case difficulty_delta (step_observer_json st) of Some d \<Rightarrow> d | None \<Rightarrow> 0)"

definition step_followup_type ::
    "(string \<Rightarrow> string) \<Rightarrow> (string \<Rightarrow> string) \<Rightarrow> state \<Rightarrow> string" where
  "step_followup_type hash_prompt unicode_lower st =
     (let action_type = pu_action_type (policy_update_node hash_prompt unicode_lower st)
      in if action_type \<in> special_routes then ''ask''
         else if action_type \<in> {''ask'', ''clarify'', ''simplify'', ''hint''} then action_type
         else ''ask'')"

definition step_selected_topic :: "(string \<Rightarrow> string) \<Rightarrow> state \<Rightarrow> string" where
  "step_selected_topic unicode_lower st =
     (let soft_topic = (case next_action_topic (step_observer_json st) of
                          Some t \<Rightarrow>
                            if t \<noteq> [] then Some (normalize_topic unicode_lower t) else None
                        | None \<Rightarrow> None)
      in if truthy soft_topic
            \<and> the soft_topic \<notin> set (py_tail 2 (last_topics (step_topic_state st)))
         then the soft_topic
         else select_next_topic unicode_lower (st_skill_matrix st) (step_topic_state st))"

text \<open>The step's loop check fires: a question was planned and \<open>detect_loop\<close> returns
  true on its prompt.\<close>

definition loop_declared ::
    "(string \<Rightarrow> string) \<Rightarrow> (string \<Rightarrow> string) \<Rightarrow> state \<Rightarrow> bool" where
  "loop_declared hash_prompt unicode_lower st =
     (case plan_question (set (st_asked_questions st)) (step_selected_topic unicode_lower st)
             (step_difficulty st) (step_followup_type hash_prompt unicode_lower st) of
        None \<Rightarrow> False
      | Some q \<Rightarrow> fst (detect_loop hash_prompt (step_topic_state st) (q_prompt q)))"

text \<open>A state at difficulty 4, for which the bank has no question, with nothing asked
  and the prompt of the bank's first question hashed twice already.\<close>

definition loop_state :: state where
  "loop_state =
     initial_state
       \<lparr>st_difficulty := Some 4,
        st_topic_state :=
          Some (empty_topic_state\<lparr>last_prompts_hashes := [prompt_py_types_1, prompt_py_types_1]\<rparr>)\<rparr>"

text \<open>A state in which the evaluator found the answer partial and suggests the topic
  \<open>python_types\<close>: the follow-up type is \<open>clarify\<close>, for which that topic has no question.\<close>

definition partial_answer_state :: state where
  "partial_answer_state =
     initial_state\<lparr>st_observer_json :=
       Some ((observed (PStr ''partial'') (PStr ''high''))
               \<lparr>next_action_topic := Some ''python_types''\<rparr>)\<rparr>"

text \<open>A scripted capability that answers every request with the same text, a schema
  whose parser accepts only the empty JSON object, and a request.\<close>

definition always_replies :: "string \<Rightarrow> llm" where
  "always_replies text = (\<lambda>history. Content text)"

definition accepts_empty_object :: "unit schema" where
  "accepts_empty_object =
     \<lparr>parse_json_with_schema = (\<lambda>text. if py_strip text = ''{}'' then Some () else None),
      schema_to_json = ''{}''\<rparr>"

definition example_messages :: "(string \<times> string) list" where
  "example_messages = [(''system'', ''Evaluate the answer.''), (''user'', ''{}'')]"

text \<open>A store holding a matrix with two entries, and two updates.\<close>

definition example_heap :: heap where
  "example_heap =
     [ListObj [''knows inner join''],
      EntryObj (Some ''confirmed'') 0,
      ListObj [],
      EntryObj (Some ''gap'') 2,
      DictObj [''sql_joins'' \<mapsto> 1, ''python_oop'' \<mapsto> 3]]"

definition example_updates :: "skill_update list" where
  "example_updates =
     [\<lparr>su_topic = Some ''sql_joins'', su_status = Some ''gap'',
       su_evidence = Some ''mixed up left join''\<rparr>,
      \<lparr>su_topic = Some ''git_basics'', su_status = Some ''uncertain'',
       su_evidence = Some ''vague on rebase''\<rparr>]"

text \<open>The repair requests recorded in a call log.\<close>

definition repair_calls :: "call_log \<Rightarrow> call_log" where
  "repair_calls calls = filter (\<lambda>c. fst c = RepairCall) calls"

section \<open>Verified properties\<close>

subsection \<open>Difficulty adaptation\<close>

text \<open>
  Claim C2. For every difficulty base b in [1,5] and every delta d in [-2,2],
  apply_difficulty b d equals clamp (b + d) 1 5; at the boundaries
  apply_difficulty 1 (-2) = 1 and apply_difficulty 5 2 = 5, and the result always
  lies in [1,5].
\<close>

theorem apply_difficulty_clamp:
  assumes "1 \<le> b" "b \<le> 5" "-2 \<le> d" "d \<le> 2"
  shows "apply_difficulty b d = spec_clamp (b + d) 1 5
         \<and> 1 \<le> apply_difficulty b d \<and> apply_difficulty b d \<le> 5
         \<and> apply_difficulty 1 (-2) = 1 \<and> apply_difficulty 5 2 = 5"
  using assms by (auto simp: apply_difficulty_def spec_clamp_def Let_def)

theorem apply_difficulty_clamp_witness:
  "(1::int) \<le> 4 \<and> (4::int) \<le> 5 \<and> (-2::int) \<le> 2 \<and> (2::int) \<le> 2
   \<and> apply_difficulty 4 2 = spec_clamp (4 + 2) 1 5
   \<and> apply_difficulty 4 2 = 5"
  using apply_difficulty_clamp [of 4 2]
  by (simp add: spec_clamp_def)

subsection \<open>Route selection and the action type of the policy-update step\<close>

lemma node_action_type:
  "pu_action_type (policy_update_node h lw st) =
     (let route = (case st_route st of
                     Some r \<Rightarrow> if r \<noteq> [] then r else ''normal''
                   | None \<Rightarrow> ''normal'')
      in if route \<in> special_routes then route
         else decide_action_type
                (case st_observer_json st of Some j \<Rightarrow> j | None \<Rightarrow> empty_observer_json)
                (st_action_type st))"
  unfolding policy_update_node_def Let_def case_prod_beta
  by (rule policy_update.select_convs)

lemma node_action_type_special:
  assumes "r \<in> special_routes"
  shows "pu_action_type (policy_update_node h lw (st\<lparr>st_route := Some r\<rparr>)) = r"
proof -
  from assms have "r \<noteq> []" by (auto simp: special_routes_def)
  with assms show ?thesis by (simp add: node_action_type)
qed

text \<open>
  Claim C3. For every stop flag and robustness detection, choose_route returns one of
  final, answer_candidate, hallucination, refocus, normal, by the priority
  stop, role reversal, hallucination claim, off topic, else normal; and whenever that
  route is answer_candidate, refocus or hallucination, the policy-update step run on a
  state carrying the route records the route itself as the action type.
\<close>

theorem choose_route_priority:
  "choose_route stop det
     \<in> {''final'', ''answer_candidate'', ''hallucination'', ''refocus'', ''normal''}
   \<and> (stop \<longrightarrow> choose_route stop det = ''final'')
   \<and> (\<not> stop \<and> det_role_reversal det \<longrightarrow> choose_route stop det = ''answer_candidate'')
   \<and> (\<not> stop \<and> \<not> det_role_reversal det \<and> det_hallucination_claim det
        \<longrightarrow> choose_route stop det = ''hallucination'')
   \<and> (\<not> stop \<and> \<not> det_role_reversal det \<and> \<not> det_hallucination_claim det
        \<and> det_off_topic det
        \<longrightarrow> choose_route stop det = ''refocus'')
   \<and> (\<not> stop \<and> \<not> det_role_reversal det \<and> \<not> det_hallucination_claim det
        \<and> \<not> det_off_topic det
        \<longrightarrow> choose_route stop det = ''normal'')
   \<and> (choose_route stop det \<in> {''answer_candidate'', ''refocus'', ''hallucination''}
        \<longrightarrow> pu_action_type
              (policy_update_node h lw (st\<lparr>st_route := Some (choose_route stop det)\<rparr>))
            = choose_route stop det)"
proof -
  have "choose_route stop det \<in> {''answer_candidate'', ''refocus'', ''hallucination''}
        \<longrightarrow> pu_action_type
              (policy_update_node h lw (st\<lparr>st_route := Some (choose_route stop det)\<rparr>))
            = choose_route stop det"
    using node_action_type_special [of "choose_route stop det" h lw st]
    unfolding special_routes_def by blast
  moreover have "choose_route stop det
     \<in> {''final'', ''answer_candidate'', ''hallucination'', ''refocus'', ''normal''}"
    by (simp add: choose_route_def)
  ultimately show ?thesis
    by (simp add: choose_route_def)
qed

theorem choose_route_priority_witness:
  "choose_route True (clean_detection\<lparr>det_role_reversal := True\<rparr>) = ''final''
   \<and> choose_route False
        (clean_detection\<lparr>det_role_reversal := True, det_hallucination_claim := True,
                         det_off_topic := True\<rparr>) = ''answer_candidate''
   \<and> choose_route False
        (clean_detection\<lparr>det_hallucination_claim := True, det_off_topic := True\<rparr>)
       = ''hallucination''
   \<and> choose_route False (clean_detection\<lparr>det_off_topic := True\<rparr>) = ''refocus''
   \<and> choose_route False clean_detection = ''normal''
   \<and> pu_action_type
        (policy_update_node id id
           (initial_state\<lparr>st_route :=
              Some (choose_route False (clean_detection\<lparr>det_off_topic := True\<rparr>))\<rparr>))
       = ''refocus''"
  using choose_route_priority [of True "clean_detection\<lparr>det_role_reversal := True\<rparr>"]
    choose_route_priority [of False
      "clean_detection\<lparr>det_role_reversal := True, det_hallucination_claim := True,
                       det_off_topic := True\<rparr>"]
    choose_route_priority [of False
      "clean_detection\<lparr>det_hallucination_claim := True, det_off_topic := True\<rparr>"]
    choose_route_priority [of False "clean_detection\<lparr>det_off_topic := True\<rparr>" id id
      initial_state]
    choose_route_priority [of False clean_detection]
  by (simp add: clean_detection_def)

subsection \<open>Action-type decision\<close>

text \<open>
  Claim C4. For every evaluator output and previous action type, decide_action_type
  returns one of refocus, answer_candidate, simplify, clarify, hint, ask, by the fixed
  priority chain: off-topic flag, then role-reversal flag, then low or incorrect
  correctness or low confidence (simplify), then partial or mixed correctness (clarify),
  then a previous action "simplify" (hint), else ask; only the first matching condition
  applies.
\<close>

theorem decide_action_type_priority:
  "decide_action_type oj prev
     \<in> {''refocus'', ''answer_candidate'', ''simplify'', ''clarify'', ''hint'', ''ask''}
   \<and> (flag_off_topic oj \<longrightarrow> decide_action_type oj prev = ''refocus'')
   \<and> (\<not> flag_off_topic oj \<and> flag_role_reversal oj
        \<longrightarrow> decide_action_type oj prev = ''answer_candidate'')
   \<and> (\<not> flag_off_topic oj \<and> \<not> flag_role_reversal oj \<and> low_quality oj
        \<longrightarrow> decide_action_type oj prev = ''simplify'')
   \<and> (\<not> flag_off_topic oj \<and> \<not> flag_role_reversal oj \<and> \<not> low_quality oj
        \<and> partial_quality oj
        \<longrightarrow> decide_action_type oj prev = ''clarify'')
   \<and> (\<not> flag_off_topic oj \<and> \<not> flag_role_reversal oj \<and> \<not> low_quality oj
        \<and> \<not> partial_quality oj \<and> prev = Some ''simplify''
        \<longrightarrow> decide_action_type oj prev = ''hint'')
   \<and> (\<not> flag_off_topic oj \<and> \<not> flag_role_reversal oj \<and> \<not> low_quality oj
        \<and> \<not> partial_quality oj \<and> prev \<noteq> Some ''simplify''
        \<longrightarrow> decide_action_type oj prev = ''ask'')"
  unfolding flag_off_topic_def flag_role_reversal_def low_quality_def partial_quality_def
    reported_correctness_def reported_confidence_def decide_action_type_def Let_def
  by (cases "robustness oj") simp_all

theorem decide_action_type_priority_witness:
  "decide_action_type
     ((observed (PStr ''wrong'') (PStr ''low''))
        \<lparr>robustness := Some (clean_flags\<lparr>off_topic := True, role_reversal := True\<rparr>)\<rparr>)
     (Some ''simplify'') = ''refocus''
   \<and> decide_action_type
     ((observed (PStr ''wrong'') (PStr ''low''))
        \<lparr>robustness := Some (clean_flags\<lparr>role_reversal := True\<rparr>)\<rparr>)
     (Some ''simplify'') = ''answer_candidate''
   \<and> decide_action_type (observed (PStr ''partial'') (PInt 1)) (Some ''simplify'') = ''simplify''
   \<and> decide_action_type (observed (PStr ''mixed'') (PStr ''high'')) (Some ''simplify'')
       = ''clarify''
   \<and> decide_action_type (observed (PStr ''correct'') (PStr ''high'')) (Some ''simplify'')
       = ''hint''
   \<and> decide_action_type (observed (PStr ''correct'') (PStr ''high'')) (Some ''ask'') = ''ask''"
  using decide_action_type_priority [of
      "(observed (PStr ''wrong'') (PStr ''low''))
        \<lparr>robustness := Some (clean_flags\<lparr>off_topic := True, role_reversal := True\<rparr>)\<rparr>"
      "Some ''simplify''"]
    decide_action_type_priority [of
      "(observed (PStr ''wrong'') (PStr ''low''))
        \<lparr>robustness := Some (clean_flags\<lparr>role_reversal := True\<rparr>)\<rparr>"
      "Some ''simplify''"]
    decide_action_type_priority [of "observed (PStr ''partial'') (PInt 1)" "Some ''simplify''"]
    decide_action_type_priority [of "observed (PStr ''mixed'') (PStr ''high'')" "Some ''simplify''"]
    decide_action_type_priority [of "observed (PStr ''correct'') (PStr ''high'')" "Some ''simplify''"]
    decide_action_type_priority [of "observed (PStr ''correct'') (PStr ''high'')" "Some ''ask''"]
  by (simp add: observed_def clean_flags_def flag_off_topic_def flag_role_reversal_def
        low_quality_def partial_quality_def reported_correctness_def reported_confidence_def
        py_in_def py_eq_def)

subsection \<open>No-repeat question selection\<close>

lemma unasked_iff:
  "unasked asked q \<longleftrightarrow> (\<exists>qid. question_id q = PStr qid \<and> qid \<notin> asked)"
  by (auto simp: unasked_def split: pyval.splits)

lemma pick_next_question_unasked:
  "pick_next_question asked topic difficulty qtype = Some q \<Longrightarrow> unasked asked q"
  by (auto simp: pick_next_question_def find_Some_iff)

lemma enforce_no_repeat_unasked:
  "enforce_no_repeat chosen asked pool = Some q \<Longrightarrow> unasked asked q"
  by (auto simp: enforce_no_repeat_def find_Some_iff split: option.splits if_splits)

text \<open>
  Claim C5. For every asked-question id set, topic, difficulty and question type,
  whenever pick_next_question or enforce_no_repeat returns a question (rather than none),
  the question's id is a string that is not a member of the asked set.
\<close>

theorem no_repeat_selection:
  "(pick_next_question asked topic difficulty qtype = Some q
      \<longrightarrow> (\<exists>qid. question_id q = PStr qid \<and> qid \<notin> asked))
   \<and> (enforce_no_repeat chosen asked pool = Some q'
      \<longrightarrow> (\<exists>qid. question_id q' = PStr qid \<and> qid \<notin> asked))"
  using pick_next_question_unasked enforce_no_repeat_unasked unasked_iff by blast

theorem no_repeat_selection_witness:
  "pick_next_question {''py_types_1''} None 1 ''ask'' = Some (QUESTION_BANK ! 5)
   \<and> enforce_no_repeat (Some (QUESTION_BANK ! 0)) {''py_types_1''} QUESTION_BANK
       = Some (QUESTION_BANK ! 1)
   \<and> (\<exists>qid. question_id (QUESTION_BANK ! 5) = PStr qid \<and> qid \<notin> {''py_types_1''})
   \<and> (\<exists>qid. question_id (QUESTION_BANK ! 1) = PStr qid \<and> qid \<notin> {''py_types_1''})"
proof -
  have p: "pick_next_question {''py_types_1''} None 1 ''ask'' = Some (QUESTION_BANK ! 5)"
    by code_simp
  have e: "enforce_no_repeat (Some (QUESTION_BANK ! 0)) {''py_types_1''} QUESTION_BANK
             = Some (QUESTION_BANK ! 1)"
    by code_simp
  show ?thesis
    using p e
      no_repeat_selection [of "{''py_types_1''}" None 1 "''ask''" "QUESTION_BANK ! 5"
        "Some (QUESTION_BANK ! 0)" QUESTION_BANK "QUESTION_BANK ! 1"]
    by blast
qed

subsection \<open>Progressive relaxation in the policy-update step\<close>

lemma find_append_case:
  "find P (xs @ ys) = (case find P xs of Some x \<Rightarrow> Some x | None \<Rightarrow> find P ys)"
  by (induction xs) auto

lemma widen_difficulty_find:
  "widen_difficulty asked levels =
     find (unasked asked) (concat (map (\<lambda>level. get_candidates None level None) levels))"
  by (induction levels) (auto simp: enforce_no_repeat_def find_append_case split: option.splits)

lemma plan_question_find:
  "plan_question asked topic difficulty qtype =
     find (unasked asked)
       (get_candidates (Some topic) difficulty (Some qtype)
        @ (if get_candidates None difficulty (Some qtype) \<noteq> []
           then get_candidates None difficulty (Some qtype)
           else get_candidates None difficulty None)
        @ concat (map (\<lambda>level. get_candidates None level None) [1, 2, 3, 4, 5]))"
  unfolding plan_question_def Let_def pick_next_question_def
    enforce_no_repeat_def widen_difficulty_find find_append_case
  by (simp split: option.splits)

lemma set_get_candidates: "set (get_candidates topic difficulty qtype) \<subseteq> set QUESTION_BANK"
  by (auto simp: get_candidates_def Let_def)

lemma set_level:
  "set (get_candidates None level None) = {q \<in> set QUESTION_BANK. q_difficulty q = level}"
  by (auto simp: get_candidates_def Let_def truthy_def)

lemma bank_levels: "q \<in> set QUESTION_BANK \<Longrightarrow> q_difficulty q \<in> {1, 2, 3, 4, 5}"
  by (auto simp: QUESTION_BANK_def)

lemma set_relaxation_pools:
  "set (get_candidates (Some topic) difficulty (Some qtype)
        @ (if get_candidates None difficulty (Some qtype) \<noteq> []
           then get_candidates None difficulty (Some qtype)
           else get_candidates None difficulty None)
        @ concat (map (\<lambda>level. get_candidates None level None) [1, 2, 3, 4, 5]))
   = set QUESTION_BANK"
  (is "set ?pools = _")
proof
  show "set ?pools \<subseteq> set QUESTION_BANK"
    using set_get_candidates by (auto simp: set_level)
  show "set QUESTION_BANK \<subseteq> set ?pools"
    using bank_levels by (fastforce simp: set_level)
qed

text \<open>How the step uses the question planned by \<open>plan_question\<close>: it is kept unless
  the loop check fires, and then replaced by the exact pick on the loop-break's topic.\<close>

lemma node_planned_question:
  "pu_planned_question (policy_update_node h lw st) =
     (case plan_question (set (st_asked_questions st)) (step_selected_topic lw st)
             (step_difficulty st) (step_followup_type h lw st) of
        None \<Rightarrow> None
      | Some q \<Rightarrow>
          if fst (detect_loop h (step_topic_state st) (q_prompt q))
          then pick_next_question (set (st_asked_questions st))
                 (Some (break_loop lw (st_skill_matrix st)
                          (snd (detect_loop h (step_topic_state st) (q_prompt q)))))
                 (step_difficulty st) (step_followup_type h lw st)
          else Some q)"
proof -
  have "pu_planned_question (policy_update_node h lw st) =
     fst (snd (case plan_question (set (st_asked_questions st)) (step_selected_topic lw st)
             (step_difficulty st) (step_followup_type h lw st) of
        None \<Rightarrow> (step_selected_topic lw st,
                 plan_question (set (st_asked_questions st)) (step_selected_topic lw st)
                   (step_difficulty st) (step_followup_type h lw st),
                 step_topic_state st)
      | Some q \<Rightarrow>
          (case detect_loop h (step_topic_state st) (q_prompt q) of
             (True, ts') \<Rightarrow>
               let sel = break_loop lw (st_skill_matrix st) ts'
               in (sel, pick_next_question (set (st_asked_questions st)) (Some sel)
                          (step_difficulty st) (step_followup_type h lw st), ts')
           | (False, ts') \<Rightarrow>
               (step_selected_topic lw st,
                plan_question (set (st_asked_questions st)) (step_selected_topic lw st)
                  (step_difficulty st) (step_followup_type h lw st), ts'))))"
    unfolding step_followup_type_def node_action_type
    unfolding policy_update_node_def step_selected_topic_def step_difficulty_def
      step_observer_json_def step_topic_state_def Let_def case_prod_beta
    by (simp only: policy_update.select_convs)
  then show ?thesis
    by (simp add: Let_def split: option.splits prod.splits bool.splits)
qed

lemma node_keeps_planned_question:
  assumes "\<not> loop_declared h lw st"
  shows "pu_planned_question (policy_update_node h lw st)
           = plan_question (set (st_asked_questions st)) (step_selected_topic lw st)
               (step_difficulty st) (step_followup_type h lw st)"
  using assms
  by (simp add: node_planned_question loop_declared_def split: option.splits)

text \<open>
  Claim C6 as stated (drop the type first, then the topic, then widen the difficulty,
  exhausting all constraints before planning no question) does not hold. With nothing
  asked, topic \<open>python_types\<close>, difficulty 1 and type \<open>clarify\<close> the exact filter is
  empty; dropping the type would give \<open>py_types_1\<close>, a question of the requested topic,
  but the step plans \<open>git_rebase_1_clarify\<close>: it keeps the type and drops the topic. The
  same holds for the whole step run on a state where the evaluator reports a partial
  answer and suggests \<open>python_types\<close>. Moreover, in a state where the loop check fires
  the step discards the question found by relaxation and re-picks with the exact filter
  only: at difficulty 4 with nothing asked it plans no question although the relaxation
  had found \<open>py_types_1\<close>.
\<close>

theorem relaxation_order_counterexample:
  "map_option question_id (plan_question {} ''python_types'' 1 ''clarify'')
     = Some (PStr ''git_rebase_1_clarify'')
   \<and> map_option question_id (spec_plan_question {} ''python_types'' 1 ''clarify'')
     = Some (PStr ''py_types_1'')
   \<and> map_option question_id
         (pu_planned_question (policy_update_node id id partial_answer_state))
     = Some (PStr ''git_rebase_1_clarify'')
   \<and> current_topic (pu_topic_state (policy_update_node id id partial_answer_state))
     = Some ''python_types''
   \<and> map_option question_id
         (plan_question (set (st_asked_questions loop_state)) (step_selected_topic id loop_state)
            (step_difficulty loop_state) (step_followup_type id id loop_state))
     = Some (PStr ''py_types_1'')
   \<and> loop_declared id id loop_state
   \<and> pu_planned_question (policy_update_node id id loop_state) = None"
proof -
  have "map_option question_id (plan_question {} ''python_types'' 1 ''clarify'')
     = Some (PStr ''git_rebase_1_clarify'')"
    by code_simp
  moreover have "map_option question_id (spec_plan_question {} ''python_types'' 1 ''clarify'')
     = Some (PStr ''py_types_1'')"
    by code_simp
  moreover have
    "map_option question_id
       (pu_planned_question (policy_update_node id id partial_answer_state))
     = Some (PStr ''git_rebase_1_clarify'')"
    by code_simp
  moreover have
    "current_topic (pu_topic_state (policy_update_node id id partial_answer_state))
     = Some ''python_types''"
    by code_simp
  moreover have
    "map_option question_id
         (plan_question (set (st_asked_questions loop_state)) (step_selected_topic id loop_state)
            (step_difficulty loop_state) (step_followup_type id id loop_state))
     = Some (PStr ''py_types_1'')"
    by code_simp
  moreover have "loop_declared id id loop_state"
    by code_simp
  moreover have "pu_planned_question (policy_update_node id id loop_state) = None"
    by code_simp
  ultimately show ?thesis by blast
qed

text \<open>
  Claim C6, amended. When the exact (difficulty, topic, type) filter yields no unasked
  question, the policy-update step first drops the topic constraint, keeping difficulty
  and type (and drops the type as well only when the bank has no question of that
  difficulty and type), then scans the difficulties 1 to 5 in order with neither topic
  nor type constraint: the question found is the first unasked question in that
  sequence of pools, and none is found only when every question of the bank has been
  asked. In every state in which the step's loop check does not fire, the question
  found (or none) is what the step plans.
\<close>

theorem plan_question_relaxation:
  "plan_question asked topic difficulty qtype =
     find (unasked asked)
       (get_candidates (Some topic) difficulty (Some qtype)
        @ (if get_candidates None difficulty (Some qtype) \<noteq> []
           then get_candidates None difficulty (Some qtype)
           else get_candidates None difficulty None)
        @ concat (map (\<lambda>level. get_candidates None level None) [1, 2, 3, 4, 5]))
   \<and> (plan_question asked topic difficulty qtype = None
        \<longleftrightarrow> (\<forall>q \<in> set QUESTION_BANK. \<not> unasked asked q))
   \<and> (\<not> loop_declared h lw st
        \<longrightarrow> pu_planned_question (policy_update_node h lw st)
            = plan_question (set (st_asked_questions st)) (step_selected_topic lw st)
                (step_difficulty st) (step_followup_type h lw st))"
proof -
  have "plan_question asked topic difficulty qtype = None
        \<longleftrightarrow> (\<forall>q \<in> set QUESTION_BANK. \<not> unasked asked q)"
    unfolding plan_question_find find_None_iff set_relaxation_pools by blast
  moreover have "\<not> loop_declared h lw st
        \<longrightarrow> pu_planned_question (policy_update_node h lw st)
            = plan_question (set (st_asked_questions st)) (step_selected_topic lw st)
                (step_difficulty st) (step_followup_type h lw st)"
    using node_keeps_planned_question by blast
  ultimately show ?thesis using plan_question_find by blast
qed

theorem plan_question_relaxation_witness:
  "\<not> loop_declared id id partial_answer_state
   \<and> plan_question (set (st_asked_questions partial_answer_state))
        (step_selected_topic id partial_answer_state) (step_difficulty partial_answer_state)
        (step_followup_type id id partial_answer_state)
     = Some (QUESTION_BANK ! 10)
   \<and> pu_planned_question (policy_update_node id id partial_answer_state)
     = Some (QUESTION_BANK ! 10)
   \<and> question_id (QUESTION_BANK ! 10) = PStr ''git_rebase_1_clarify''
   \<and> list_all
       (\<lambda>q. \<not> unasked {''py_types_1'', ''py_types_1_simplify'', ''py_types_1_hint'',
                  ''py_iter_2'', ''py_iter_2_clarify'', ''sql_join_1'', ''sql_join_1_simplify'',
                  ''py_oop_3'', ''sql_index_3'', ''git_rebase_1'', ''git_rebase_1_clarify''} q)
       QUESTION_BANK
   \<and> plan_question {''py_types_1'', ''py_types_1_simplify'', ''py_types_1_hint'', ''py_iter_2'',
                  ''py_iter_2_clarify'', ''sql_join_1'', ''sql_join_1_simplify'', ''py_oop_3'',
                  ''sql_index_3'', ''git_rebase_1'', ''git_rebase_1_clarify''}
        ''python_types'' 1 ''clarify'' = None"
proof -
  let ?all = "{''py_types_1'', ''py_types_1_simplify'', ''py_types_1_hint'', ''py_iter_2'',
               ''py_iter_2_clarify'', ''sql_join_1'', ''sql_join_1_simplify'', ''py_oop_3'',
               ''sql_index_3'', ''git_rebase_1'', ''git_rebase_1_clarify''}"
  have a: "\<forall>q \<in> set QUESTION_BANK. \<not> unasked ?all q"
    by (simp add: QUESTION_BANK_def unasked_def)
  have n: "\<not> loop_declared id id partial_answer_state"
    by code_simp
  have p: "plan_question (set (st_asked_questions partial_answer_state))
        (step_selected_topic id partial_answer_state) (step_difficulty partial_answer_state)
        (step_followup_type id id partial_answer_state)
     = Some (QUESTION_BANK ! 10)"
    by code_simp
  have i: "question_id (QUESTION_BANK ! 10) = PStr ''git_rebase_1_clarify''"
    by (simp add: QUESTION_BANK_def)
  note t = plan_question_relaxation [of ?all "''python_types''" 1 "''clarify''" id id
      partial_answer_state]
  from t a have none: "plan_question ?all ''python_types'' 1 ''clarify'' = None"
    by blast
  from t n have "pu_planned_question (policy_update_node id id partial_answer_state)
      = plan_question (set (st_asked_questions partial_answer_state))
          (step_selected_topic id partial_answer_state) (step_difficulty partial_answer_state)
          (step_followup_type id id partial_answer_state)"
    by blast
  with p have kept: "pu_planned_question (policy_update_node id id partial_answer_state)
      = Some (QUESTION_BANK ! 10)"
    by simp
  from a have all: "list_all (\<lambda>q. \<not> unasked ?all q) QUESTION_BANK"
    unfolding list_all_iff .
  from n p kept i all none show ?thesis by blast
qed

subsection \<open>Loop detection\<close>

lemma remdups_one:
  "length (remdups xs) = 1 \<longleftrightarrow> xs \<noteq> [] \<and> (\<forall>x\<in>set xs. x = last xs)"
proof -
  have "length (remdups xs) = card (set xs)" by (simp add: length_remdups_card_conv)
  moreover have "card (set xs) = 1 \<longleftrightarrow> xs \<noteq> [] \<and> (\<forall>x\<in>set xs. x = last xs)"
  proof
    assume "card (set xs) = 1"
    then obtain a where a: "set xs = {a}" by (auto simp: card_1_singleton_iff)
    then have "xs \<noteq> []" by auto
    moreover from this a have "last xs = a" using last_in_set by blast
    ultimately show "xs \<noteq> [] \<and> (\<forall>x\<in>set xs. x = last xs)" using a by auto
  next
    assume h: "xs \<noteq> [] \<and> (\<forall>x\<in>set xs. x = last xs)"
    then have "set xs = {last xs}" using last_in_set by fastforce
    then show "card (set xs) = 1" by simp
  qed
  ultimately show ?thesis by simp
qed

lemma py_tail_length: "length (py_tail n xs) \<le> n"
  by (simp add: py_tail_def)

lemma py_tail_snoc: "0 < n \<Longrightarrow> \<exists>older. py_tail n (xs @ [x]) = older @ [x]"
  by (auto simp: py_tail_def)

lemma two_last:
  assumes "2 \<le> length xs"
  shows "\<exists>older a b. xs = older @ [a, b]"
proof -
  from assms have "xs \<noteq> []" by auto
  then obtain ys b where xs: "xs = ys @ [b]" by (metis rev_exhaust)
  with assms have "ys \<noteq> []" by auto
  then obtain zs a where "ys = zs @ [a]" by (metis rev_exhaust)
  with xs show ?thesis by auto
qed

lemma last_three_same:
  "(3 \<le> length (xs @ [x]) \<and> (\<forall>y \<in> set (py_tail 3 (xs @ [x])). y = x))
   \<longleftrightarrow> (\<exists>older. xs = older @ [x, x])"
proof
  assume h: "3 \<le> length (xs @ [x]) \<and> (\<forall>y \<in> set (py_tail 3 (xs @ [x])). y = x)"
  then have "2 \<le> length xs" by simp
  then obtain older a b where xs: "xs = older @ [a, b]" using two_last by blast
  then have "py_tail 3 (xs @ [x]) = [a, b, x]" by (simp add: py_tail_def)
  with h have "a = x" "b = x" by auto
  with xs show "\<exists>older. xs = older @ [x, x]" by auto
next
  assume "\<exists>older. xs = older @ [x, x]"
  then obtain older where "xs = older @ [x, x]" by blast
  then show "3 \<le> length (xs @ [x]) \<and> (\<forall>y \<in> set (py_tail 3 (xs @ [x])). y = x)"
    by (simp add: py_tail_def)
qed

text \<open>
  Claim C7. detect_loop appends the hash of the newly planned prompt to the topic
  state's ring of recent prompt hashes; after every call the ring holds at most 5 entries
  (the 5 most recent); and it returns true exactly when at least three hashes have been
  recorded and the last three are identical, that is, when the two hashes recorded just
  before equal the new one. In particular a call on a ring holding fewer than two hashes
  (two identical consecutive hashes at most) does not declare a loop.
\<close>

theorem detect_loop_ring:
  assumes "detect_loop hash_prompt ts new_prompt = (verdict, ts')"
  shows "last_prompts_hashes ts' = py_tail 5 (last_prompts_hashes ts @ [hash_prompt new_prompt])
         \<and> (\<exists>older. last_prompts_hashes ts' = older @ [hash_prompt new_prompt])
         \<and> length (last_prompts_hashes ts') \<le> 5
         \<and> (verdict \<longleftrightarrow>
               3 \<le> length (last_prompts_hashes ts @ [hash_prompt new_prompt])
               \<and> (\<forall>x \<in> set (py_tail 3 (last_prompts_hashes ts @ [hash_prompt new_prompt])).
                     x = hash_prompt new_prompt))
         \<and> (verdict \<longleftrightarrow>
               (\<exists>older. last_prompts_hashes ts
                          = older @ [hash_prompt new_prompt, hash_prompt new_prompt]))
         \<and> (length (last_prompts_hashes ts) < 2 \<longrightarrow> \<not> verdict)"
proof -
  let ?hs = "last_prompts_hashes ts @ [hash_prompt new_prompt]"
  from assms have ring: "last_prompts_hashes ts' = py_tail 5 ?hs"
    and v: "verdict \<longleftrightarrow> 3 \<le> length ?hs \<and> length (remdups (py_tail 3 ?hs)) = 1"
    by (auto simp: detect_loop_def Let_def split: if_splits)
  have nonempty: "py_tail 3 ?hs \<noteq> []" by (simp add: py_tail_def)
  have lst: "last (py_tail 3 ?hs) = hash_prompt new_prompt"
    by (simp add: py_tail_def)
  have "length (remdups (py_tail 3 ?hs)) = 1 \<longleftrightarrow>
          (\<forall>x \<in> set (py_tail 3 ?hs). x = hash_prompt new_prompt)"
    using nonempty lst remdups_one [of "py_tail 3 ?hs"] by simp
  with v have v': "verdict \<longleftrightarrow> 3 \<le> length ?hs
                     \<and> (\<forall>x \<in> set (py_tail 3 ?hs). x = hash_prompt new_prompt)"
    by simp
  then have v'': "verdict \<longleftrightarrow>
      (\<exists>older. last_prompts_hashes ts = older @ [hash_prompt new_prompt, hash_prompt new_prompt])"
    using last_three_same [of "last_prompts_hashes ts" "hash_prompt new_prompt"] by simp
  have "\<exists>older. py_tail 5 ?hs = older @ [hash_prompt new_prompt]"
    by (rule py_tail_snoc) simp
  moreover have "length (py_tail 5 ?hs) \<le> 5" by (rule py_tail_length)
  moreover from v' have "length (last_prompts_hashes ts) < 2 \<longrightarrow> \<not> verdict" by auto
  ultimately show ?thesis using ring v' v'' by simp
qed

theorem detect_loop_ring_witness:
  "detect_loop id (empty_topic_state\<lparr>last_prompts_hashes := [''a'', ''b'', ''c'', ''q'', ''q'']\<rparr>) ''q''
     = (True, empty_topic_state\<lparr>last_prompts_hashes := [''b'', ''c'', ''q'', ''q'', ''q'']\<rparr>)
   \<and> detect_loop id (empty_topic_state\<lparr>last_prompts_hashes := [''q'']\<rparr>) ''q''
     = (False, empty_topic_state\<lparr>last_prompts_hashes := [''q'', ''q'']\<rparr>)
   \<and> length [''b'', ''c'', ''q'', ''q'', ''q''] \<le> (5::nat)"
proof -
  have a: "detect_loop id
             (empty_topic_state\<lparr>last_prompts_hashes := [''a'', ''b'', ''c'', ''q'', ''q'']\<rparr>) ''q''
     = (True, empty_topic_state\<lparr>last_prompts_hashes := [''b'', ''c'', ''q'', ''q'', ''q'']\<rparr>)"
    by (simp add: detect_loop_def py_tail_def empty_topic_state_def Let_def)
  have b: "detect_loop id (empty_topic_state\<lparr>last_prompts_hashes := [''q'']\<rparr>) ''q''
     = (False, empty_topic_state\<lparr>last_prompts_hashes := [''q'', ''q'']\<rparr>)"
    by (simp add: detect_loop_def py_tail_def empty_topic_state_def Let_def)
  show ?thesis
    using a b detect_loop_ring [OF a] detect_loop_ring [OF b] by simp
qed

subsection \<open>Loop breaking\<close>

lemma set_scored: "snd ` set (sort_key fst (map (\<lambda>t. (f t, t)) ts)) = set ts"
  by (simp add: image_image)

text \<open>The topic ranking on its own does avoid the most recent topic, but only when the
  two most recent topics coincide and the pool has another topic.\<close>

lemma select_next_topic_switches:
  assumes "should_switch_topic (last_topics ts) get_all_topics"
  shows "select_next_topic lw skill_matrix ts \<noteq> last (last_topics ts)"
proof -
  let ?scored = "sort_key fst (map (\<lambda>topic.
        (status_priority (normalize_topic lw (entry_status_str skill_matrix topic)), topic))
        get_all_topics)"
  let ?P = "\<lambda>x. snd x \<noteq> last (last_topics ts)"
  from assms obtain t where t: "t \<in> set get_all_topics" "t \<noteq> last (last_topics ts)"
    by (auto simp: should_switch_topic_def list_ex_iff split: if_splits)
  have "snd ` set ?scored = set get_all_topics" by (rule set_scored)
  with t obtain x where "x \<in> set ?scored" "?P x" by force
  then have "find ?P ?scored \<noteq> None" by (auto simp: find_None_iff)
  then obtain y where y: "find ?P ?scored = Some y" by auto
  then have "?P y" by (auto simp: find_Some_iff)
  moreover have "select_next_topic lw skill_matrix ts = snd y"
    using assms y by (simp add: select_next_topic_def Let_def)
  ultimately show ?thesis by simp
qed


subsection \<open>Skill-matrix updates\<close>

lemma step_evidence:
  "t \<noteq> [] \<Longrightarrow>
   evidence_of (skill_update_step m item) t = evidence_of m t @ collected_evidence t [item]"
  by (auto simp: skill_update_step_def evidence_of_def collected_evidence_def Let_def
           split: option.splits)

lemma step_confirmed:
  "status_of m t = Some ''confirmed'' \<Longrightarrow>
   status_of (skill_update_step m item) t = Some ''confirmed''"
  by (auto simp: skill_update_step_def status_of_def Let_def truthy_def split: option.splits)

lemma step_dom: "m t \<noteq> None \<Longrightarrow> skill_update_step m item t \<noteq> None"
  by (auto simp: skill_update_step_def Let_def split: option.splits)

lemma step_creates:
  "su_topic item = Some t \<Longrightarrow> t \<noteq> [] \<Longrightarrow> skill_update_step m item t \<noteq> None"
  by (auto simp: skill_update_step_def Let_def split: option.splits)

lemma collected_append:
  "collected_evidence t (xs @ ys) = collected_evidence t xs @ collected_evidence t ys"
  by (simp add: collected_evidence_def)

lemma apply_skill_updates_Cons:
  "apply_skill_updates m (u # ups) = apply_skill_updates (skill_update_step m u) ups"
  by (simp add: apply_skill_updates_def)

lemma updates_evidence:
  "t \<noteq> [] \<Longrightarrow>
   evidence_of (apply_skill_updates m ups) t = evidence_of m t @ collected_evidence t ups"
proof (induction ups arbitrary: m)
  case Nil
  then show ?case by (simp add: apply_skill_updates_def collected_evidence_def)
next
  case (Cons u ups)
  then show ?case
    using Cons.IH [OF Cons.prems, of "skill_update_step m u"]
      step_evidence [OF Cons.prems, of m u] collected_append [of t "[u]" ups]
    by (simp add: apply_skill_updates_Cons)
qed

lemma updates_confirmed:
  "status_of m t = Some ''confirmed'' \<Longrightarrow>
   status_of (apply_skill_updates m ups) t = Some ''confirmed''"
proof (induction ups arbitrary: m)
  case Nil
  then show ?case by (simp add: apply_skill_updates_def)
next
  case (Cons u ups)
  then show ?case
    using step_confirmed [of m t u] by (simp add: apply_skill_updates_Cons)
qed

lemma updates_dom: "m t \<noteq> None \<Longrightarrow> apply_skill_updates m ups t \<noteq> None"
proof (induction ups arbitrary: m)
  case Nil
  then show ?case by (simp add: apply_skill_updates_def)
next
  case (Cons u ups)
  then show ?case
    using step_dom [of m t u] by (simp add: apply_skill_updates_Cons)
qed

lemma updates_creates:
  "\<exists>u \<in> set ups. su_topic u = Some t \<Longrightarrow> t \<noteq> [] \<Longrightarrow> apply_skill_updates m ups t \<noteq> None"
proof (induction ups arbitrary: m)
  case Nil
  then show ?case by simp
next
  case (Cons u ups)
  show ?case
  proof (cases "su_topic u = Some t")
    case True
    then have "skill_update_step m u t \<noteq> None" using Cons.prems(2) by (rule step_creates)
    then show ?thesis unfolding apply_skill_updates_Cons by (rule updates_dom)
  next
    case False
    with Cons.prems have "\<exists>u \<in> set ups. su_topic u = Some t" by auto
    then show ?thesis unfolding apply_skill_updates_Cons using Cons.IH Cons.prems(2) by blast
  qed
qed

text \<open>
  Claim C9. For every skill matrix in which a topic's status is "confirmed" and every
  finite sequence of updates applied by apply_skill_updates, the topic's status is still
  "confirmed" afterwards (whatever statuses the updates carry, so in particular when none
  of them is "confirmed"); the evidence of every update for a topic, when present, is
  appended in order to that topic's evidence list; and a topic missing from the matrix
  that some update names gets an entry whose evidence starts empty.
\<close>

theorem confirmed_status_monotone:
  "(skill_matrix t = Some e \<and> status e = Some ''confirmed''
      \<longrightarrow> (\<exists>e'. apply_skill_updates skill_matrix updates t = Some e'
                \<and> status e' = Some ''confirmed''))
   \<and> (skill_matrix t = Some e \<and> t \<noteq> []
      \<longrightarrow> (\<exists>e'. apply_skill_updates skill_matrix updates t = Some e'
                \<and> evidence e' = evidence e @ collected_evidence t updates))
   \<and> (skill_matrix t = None \<and> t \<noteq> [] \<and> (\<exists>u \<in> set updates. su_topic u = Some t)
      \<longrightarrow> (\<exists>e'. apply_skill_updates skill_matrix updates t = Some e'
                \<and> evidence e' = [] @ collected_evidence t updates))"
proof (intro conjI impI)
  assume h: "skill_matrix t = Some e \<and> status e = Some ''confirmed''"
  then have "status_of skill_matrix t = Some ''confirmed''" by (simp add: status_of_def)
  then have "status_of (apply_skill_updates skill_matrix updates) t = Some ''confirmed''"
    by (rule updates_confirmed)
  then show "\<exists>e'. apply_skill_updates skill_matrix updates t = Some e'
                \<and> status e' = Some ''confirmed''"
    by (auto simp: status_of_def split: option.splits)
next
  assume h: "skill_matrix t = Some e \<and> t \<noteq> []"
  then have "apply_skill_updates skill_matrix updates t \<noteq> None"
    using updates_dom [of skill_matrix t updates] by simp
  moreover from h have "evidence_of (apply_skill_updates skill_matrix updates) t
      = evidence_of skill_matrix t @ collected_evidence t updates"
    using updates_evidence by blast
  ultimately show "\<exists>e'. apply_skill_updates skill_matrix updates t = Some e'
                \<and> evidence e' = evidence e @ collected_evidence t updates"
    using h by (auto simp: evidence_of_def)
next
  assume h: "skill_matrix t = None \<and> t \<noteq> [] \<and> (\<exists>u \<in> set updates. su_topic u = Some t)"
  then have "apply_skill_updates skill_matrix updates t \<noteq> None"
    using updates_creates [of updates t skill_matrix] by blast
  moreover from h have "evidence_of (apply_skill_updates skill_matrix updates) t
      = evidence_of skill_matrix t @ collected_evidence t updates"
    using updates_evidence by blast
  ultimately show "\<exists>e'. apply_skill_updates skill_matrix updates t = Some e'
                \<and> evidence e' = [] @ collected_evidence t updates"
    using h by (auto simp: evidence_of_def)
qed

theorem confirmed_status_monotone_witness:
  "apply_skill_updates
     [''sql_joins'' \<mapsto> \<lparr>status = Some ''confirmed'', evidence = [''knows inner join'']\<rparr>]
     [\<lparr>su_topic = Some ''sql_joins'', su_status = Some ''gap'',
       su_evidence = Some ''mixed up left join''\<rparr>,
      \<lparr>su_topic = Some ''git_basics'', su_status = Some ''uncertain'',
       su_evidence = Some ''vague on rebase''\<rparr>,
      \<lparr>su_topic = Some ''sql_joins'', su_status = Some ''uncertain'', su_evidence = None\<rparr>]
   = [''sql_joins'' \<mapsto> \<lparr>status = Some ''confirmed'',
                          evidence = [''knows inner join'', ''mixed up left join'']\<rparr>,
      ''git_basics'' \<mapsto> \<lparr>status = Some ''uncertain'', evidence = [''vague on rebase'']\<rparr>]"
proof -
  let ?m = "[''sql_joins'' \<mapsto> \<lparr>status = Some ''confirmed'', evidence = [''knows inner join'']\<rparr>]"
  let ?ups = "[\<lparr>su_topic = Some ''sql_joins'', su_status = Some ''gap'',
       su_evidence = Some ''mixed up left join''\<rparr>,
      \<lparr>su_topic = Some ''git_basics'', su_status = Some ''uncertain'',
       su_evidence = Some ''vague on rebase''\<rparr>,
      \<lparr>su_topic = Some ''sql_joins'', su_status = Some ''uncertain'', su_evidence = None\<rparr>]"
  have s: "\<exists>e'. apply_skill_updates ?m ?ups ''sql_joins'' = Some e'
                \<and> status e' = Some ''confirmed''"
    using confirmed_status_monotone [of ?m "''sql_joins''"
        "\<lparr>status = Some ''confirmed'', evidence = [''knows inner join'']\<rparr>" ?ups]
    by simp
  have g: "\<exists>e'. apply_skill_updates ?m ?ups ''git_basics'' = Some e'
                \<and> evidence e' = [] @ collected_evidence ''git_basics'' ?ups"
    using confirmed_status_monotone [of ?m "''git_basics''" undefined ?ups]
    by simp
  show ?thesis
    using s g
    by (simp add: apply_skill_updates_def skill_update_step_def truthy_def fun_upd_twist)
qed

subsection \<open>Skill-matrix updates leave their input alone\<close>

lemma lookup_lt: "lookup h a = Some v \<Longrightarrow> a < length h"
  by (auto simp: lookup_def split: if_splits)

lemma lookup_append_old: "a < length h \<Longrightarrow> lookup (h @ ys) a = lookup h a"
  by (simp add: lookup_def nth_append)

lemma lookup_update_other: "a \<noteq> u \<Longrightarrow> lookup (h[u := v]) a = lookup h a"
  by (simp add: lookup_def)

lemma abs_entry_SomeD:
  "abs_entry h e = Some x \<Longrightarrow>
   \<exists>l. lookup h e = Some (EntryObj (status x) l) \<and> lookup h l = Some (ListObj (evidence x))"
  by (auto simp: abs_entry_def split: option.splits obj.splits)

lemma abs_entry_stable:
  assumes "abs_entry h e = Some x" and "lookup h u = Some (DictObj m)"
  shows "abs_entry ((h @ ys)[u := v]) e = Some x"
proof -
  from assms(1) obtain l where e: "lookup h e = Some (EntryObj (status x) l)"
    and l: "lookup h l = Some (ListObj (evidence x))"
    using abs_entry_SomeD by blast
  from e assms(2) have "e \<noteq> u" by auto
  moreover from l assms(2) have "l \<noteq> u" by auto
  moreover from e have "e < length h" by (rule lookup_lt)
  moreover from l have "l < length h" by (rule lookup_lt)
  ultimately have "lookup ((h @ ys)[u := v]) e = lookup h e"
    and "lookup ((h @ ys)[u := v]) l = lookup h l"
    by (simp_all add: lookup_update_other lookup_append_old)
  with e l show ?thesis by (simp add: abs_entry_def)
qed

lemma skill_update_step_explicit:
  assumes "su_topic item = Some topic" "topic \<noteq> []"
  shows "skill_update_step sm item =
     sm(topic \<mapsto>
        \<lparr>status = next_status (case sm topic of Some e \<Rightarrow> status e | None \<Rightarrow> None) (su_status item),
         evidence = next_evidence (case sm topic of Some e \<Rightarrow> evidence e | None \<Rightarrow> [])
                      (su_evidence item)\<rparr>)"
  using assms
  by (auto simp: skill_update_step_def next_status_def next_evidence_def Let_def
           split: option.splits)

lemma update_third: "(h @ [a, b, c])[Suc (Suc (length h)) := v] = h @ [a, b, v]"
  by (simp add: list_update_append)

lemma heap_update_step_explicit:
  assumes topic: "su_topic item = Some topic" "topic \<noteq> []"
      and u: "lookup h u = Some (DictObj m)"
      and wf: "wf_dict h m"
      and cur: "cur = (case m topic of Some a \<Rightarrow> the (abs_entry h a)
                       | None \<Rightarrow> \<lparr>status = None, evidence = []\<rparr>)"
  shows "heap_update_step u h item =
     Some ((h @ [ListObj [], EntryObj None (length h),
                 ListObj (next_evidence (evidence cur) (su_evidence item)),
                 EntryObj (next_status (status cur) (su_status item)) (length h + 2)])
           [u := DictObj (m(topic \<mapsto> length h + 3))])"
proof (cases "m topic")
  case None
  with cur have c: "cur = \<lparr>status = None, evidence = []\<rparr>" by simp
  from u have ult: "u < length h" by (rule lookup_lt)
  show ?thesis
    using topic u None ult
    by (simp add: heap_update_step_def alloc_def lookup_def nth_append c update_third
          numeral_3_eq_3 next_status_def next_evidence_def Let_def split: option.splits)
next
  case (Some a)
  with wf obtain x where x: "abs_entry h a = Some x" by (auto simp: wf_dict_def)
  with cur Some have c: "cur = x" by simp
  from x obtain l where e: "lookup h a = Some (EntryObj (status x) l)"
    and l: "lookup h l = Some (ListObj (evidence x))"
    using abs_entry_SomeD by blast
  from e have alt: "a < length h" by (rule lookup_lt)
  from l have llt: "l < length h" by (rule lookup_lt)
  from e alt have ea: "h ! a = EntryObj (status x) l" by (simp add: lookup_def)
  from l llt have la: "h ! l = ListObj (evidence x)" by (simp add: lookup_def)
  from u have ult: "u < length h" by (rule lookup_lt)
  show ?thesis
    using topic u Some alt llt ea la ult
    by (simp add: heap_update_step_def alloc_def lookup_def nth_append c update_third
          numeral_3_eq_3 next_status_def next_evidence_def Let_def split: option.splits)
qed


lemma abs_matrix_at:
  "lookup h u = Some (DictObj m) \<Longrightarrow>
   abs_matrix h (Some u) t = (case m t of None \<Rightarrow> None | Some e \<Rightarrow> abs_entry h e)"
  by (simp add: abs_matrix_def)

lemma heap_update_step_props:
  assumes u: "lookup h u = Some (DictObj m)" and wf: "wf_dict h m" and n: "n \<le> u"
  shows "\<exists>h' m'. heap_update_step u h item = Some h'
           \<and> length h \<le> length h'
           \<and> take n h' = take n h
           \<and> lookup h' u = Some (DictObj m')
           \<and> wf_dict h' m'
           \<and> abs_matrix h' (Some u) = skill_update_step (abs_matrix h (Some u)) item
           \<and> (\<forall>t. fresh_entry n h u t \<longrightarrow> fresh_entry n h' u t)
           \<and> (\<forall>t. t \<noteq> [] \<and> su_topic item = Some t \<longrightarrow> fresh_entry n h' u t)
           \<and> (\<forall>t. \<not> (su_topic item = Some t \<and> t \<noteq> []) \<longrightarrow> m' t = m t)"
proof (cases "\<exists>topic. su_topic item = Some topic \<and> topic \<noteq> []")
  case False
  then have "heap_update_step u h item = Some h"
    by (auto simp: heap_update_step_def split: option.splits)
  moreover from False have "skill_update_step (abs_matrix h (Some u)) item = abs_matrix h (Some u)"
    by (auto simp: skill_update_step_def split: option.splits)
  ultimately show ?thesis using u wf False by auto
next
  case True
  then obtain topic where topic: "su_topic item = Some topic" "topic \<noteq> []" by blast
  from u have ult: "u < length h" by (rule lookup_lt)
  define cur where "cur = (case m topic of Some a \<Rightarrow> the (abs_entry h a)
                       | None \<Rightarrow> \<lparr>status = None, evidence = []\<rparr>)"
  define ns where "ns = next_status (status cur) (su_status item)"
  define xs where "xs = next_evidence (evidence cur) (su_evidence item)"
  define m' where "m' = m(topic \<mapsto> length h + 3)"
  define h' where "h' = (h @ [ListObj [], EntryObj None (length h), ListObj xs,
                              EntryObj ns (length h + 2)])[u := DictObj m']"
  have step: "heap_update_step u h item = Some h'"
    unfolding h'_def m'_def ns_def xs_def
    by (rule heap_update_step_explicit [OF topic u wf cur_def])
  have len: "length h' = length h + 4" by (simp add: h'_def)
  have frame: "take n h' = take n h"
    using n ult by (simp add: h'_def)
  have u': "lookup h' u = Some (DictObj m')"
    using ult by (simp add: h'_def lookup_def)
  have new_entry: "lookup h' (length h + 3) = Some (EntryObj ns (length h + 2))"
    using ult by (simp add: h'_def lookup_def nth_append)
  have new_list: "lookup h' (length h + 2) = Some (ListObj xs)"
    using ult by (simp add: h'_def lookup_def nth_append)
  have new_abs: "abs_entry h' (length h + 3) = Some \<lparr>status = ns, evidence = xs\<rparr>"
    using new_entry new_list by (simp add: abs_entry_def)
  have old_abs: "abs_entry h' e = Some x" if "abs_entry h e = Some x" for e x
    unfolding h'_def using that u by (rule abs_entry_stable)
  have old_lookup: "lookup h' e = lookup h e"
    if "lookup h e = Some (EntryObj s l)" for e s l
  proof -
    from that have "e < length h" by (rule lookup_lt)
    moreover from that u have "e \<noteq> u" by auto
    ultimately show ?thesis by (simp add: h'_def lookup_update_other lookup_append_old)
  qed
  have wf': "wf_dict h' m'"
    unfolding wf_dict_def
  proof (intro allI impI)
    fix t e assume te: "m' t = Some e"
    show "abs_entry h' e \<noteq> None"
    proof (cases "t = topic")
      case True
      with te have "e = length h + 3" by (simp add: m'_def)
      with new_abs show ?thesis by simp
    next
      case False
      with te have "m t = Some e" by (simp add: m'_def)
      with wf obtain x where "abs_entry h e = Some x" by (auto simp: wf_dict_def)
      then have "abs_entry h' e = Some x" by (rule old_abs)
      then show ?thesis by simp
    qed
  qed
  have cur_abs: "abs_matrix h (Some u) topic = None \<and> cur = \<lparr>status = None, evidence = []\<rparr>
                 \<or> abs_matrix h (Some u) topic = Some cur"
  proof (cases "m topic")
    case None
    then show ?thesis by (simp add: abs_matrix_at [OF u] cur_def)
  next
    case (Some a)
    with wf obtain x where "abs_entry h a = Some x" by (auto simp: wf_dict_def)
    with Some show ?thesis by (simp add: abs_matrix_at [OF u] cur_def)
  qed
  have cur_status:
    "(case abs_matrix h (Some u) topic of Some e \<Rightarrow> status e | None \<Rightarrow> None) = status cur"
    using cur_abs by auto
  have cur_evidence:
    "(case abs_matrix h (Some u) topic of Some e \<Rightarrow> evidence e | None \<Rightarrow> []) = evidence cur"
    using cur_abs by auto
  have pure: "skill_update_step (abs_matrix h (Some u)) item =
      (abs_matrix h (Some u))(topic \<mapsto> \<lparr>status = ns, evidence = xs\<rparr>)"
    unfolding skill_update_step_explicit [OF topic] cur_status cur_evidence ns_def xs_def ..
  have abs: "abs_matrix h' (Some u) = skill_update_step (abs_matrix h (Some u)) item"
  proof
    fix t
    show "abs_matrix h' (Some u) t = skill_update_step (abs_matrix h (Some u)) item t"
    proof (cases "t = topic")
      case True
      then show ?thesis
        by (simp add: pure abs_matrix_at [OF u'] m'_def new_abs)
    next
      case False
      show ?thesis
      proof (cases "m t")
        case None
        with False show ?thesis
          by (simp add: pure abs_matrix_at [OF u'] abs_matrix_at [OF u] m'_def)
      next
        case (Some e)
        with wf obtain x where x: "abs_entry h e = Some x" by (auto simp: wf_dict_def)
        then have "abs_entry h' e = Some x" by (rule old_abs)
        with False Some x show ?thesis
          by (simp add: pure abs_matrix_at [OF u'] abs_matrix_at [OF u] m'_def)
      qed
    qed
  qed
  have fresh_new: "fresh_entry n h' u topic"
    using n ult u' new_entry by (simp add: fresh_entry_def m'_def)
  have fresh_old: "fresh_entry n h' u t" if f: "fresh_entry n h u t" for t
  proof (cases "t = topic")
    case True
    with fresh_new show ?thesis by simp
  next
    case False
    from f u obtain e s l where e: "m t = Some e" "n \<le> e"
      "lookup h e = Some (EntryObj s l)" "n \<le> l"
      by (auto simp: fresh_entry_def split: option.splits obj.splits)
    from e(3) have "lookup h' e = Some (EntryObj s l)" using old_lookup by simp
    with e False u' show ?thesis by (simp add: fresh_entry_def m'_def)
  qed
  have others: "m' t = m t" if "\<not> (su_topic item = Some t \<and> t \<noteq> [])" for t
    using that topic by (auto simp: m'_def)
  show ?thesis
    using step len frame u' wf' abs fresh_new fresh_old others topic
    by (intro exI [of _ h'] exI [of _ m']) auto
qed


lemma heap_updates_props:
  assumes "lookup h u = Some (DictObj m)" and "wf_dict h m" and "n \<le> u"
  shows "\<exists>h' m'. heap_updates u h ups = Some h'
           \<and> length h \<le> length h'
           \<and> take n h' = take n h
           \<and> lookup h' u = Some (DictObj m')
           \<and> wf_dict h' m'
           \<and> abs_matrix h' (Some u) = apply_skill_updates (abs_matrix h (Some u)) ups
           \<and> (\<forall>t. fresh_entry n h u t \<longrightarrow> fresh_entry n h' u t)
           \<and> (\<forall>t. t \<noteq> [] \<and> (\<exists>i \<in> set ups. su_topic i = Some t) \<longrightarrow> fresh_entry n h' u t)
           \<and> (\<forall>t. \<not> (t \<noteq> [] \<and> (\<exists>i \<in> set ups. su_topic i = Some t)) \<longrightarrow> m' t = m t)"
  using assms
proof (induction ups arbitrary: h m)
  case Nil
  then show ?case by (auto simp: apply_skill_updates_def)
next
  case (Cons item ups)
  from heap_update_step_props [OF Cons.prems, of item]
  obtain h1 m1 where s: "heap_update_step u h item = Some h1"
    and len1: "length h \<le> length h1"
    and frame1: "take n h1 = take n h"
    and u1: "lookup h1 u = Some (DictObj m1)"
    and wf1: "wf_dict h1 m1"
    and abs1: "abs_matrix h1 (Some u) = skill_update_step (abs_matrix h (Some u)) item"
    and keep1: "\<forall>t. fresh_entry n h u t \<longrightarrow> fresh_entry n h1 u t"
    and new1: "\<forall>t. t \<noteq> [] \<and> su_topic item = Some t \<longrightarrow> fresh_entry n h1 u t"
    and same1: "\<forall>t. \<not> (su_topic item = Some t \<and> t \<noteq> []) \<longrightarrow> m1 t = m t"
    by blast
  from Cons.IH [OF u1 wf1 Cons.prems(3)]
  obtain h2 m2 where r: "heap_updates u h1 ups = Some h2"
    and len2: "length h1 \<le> length h2"
    and frame2: "take n h2 = take n h1"
    and u2: "lookup h2 u = Some (DictObj m2)"
    and wf2: "wf_dict h2 m2"
    and abs2: "abs_matrix h2 (Some u) = apply_skill_updates (abs_matrix h1 (Some u)) ups"
    and keep2: "\<forall>t. fresh_entry n h1 u t \<longrightarrow> fresh_entry n h2 u t"
    and new2: "\<forall>t. t \<noteq> [] \<and> (\<exists>i \<in> set ups. su_topic i = Some t) \<longrightarrow> fresh_entry n h2 u t"
    and same2: "\<forall>t. \<not> (t \<noteq> [] \<and> (\<exists>i \<in> set ups. su_topic i = Some t)) \<longrightarrow> m2 t = m1 t"
    by blast
  have "heap_updates u h (item # ups) = Some h2" using s r by simp
  moreover have "length h \<le> length h2" using len1 len2 by simp
  moreover have "take n h2 = take n h" using frame1 frame2 by simp
  moreover have "abs_matrix h2 (Some u) = apply_skill_updates (abs_matrix h (Some u)) (item # ups)"
    using abs1 abs2 by (simp add: apply_skill_updates_def)
  moreover have "\<forall>t. fresh_entry n h u t \<longrightarrow> fresh_entry n h2 u t"
    using keep1 keep2 by blast
  moreover have "\<forall>t. t \<noteq> [] \<and> (\<exists>i \<in> set (item # ups). su_topic i = Some t)
                    \<longrightarrow> fresh_entry n h2 u t"
    using new1 new2 keep2 by auto
  moreover have "\<forall>t. \<not> (t \<noteq> [] \<and> (\<exists>i \<in> set (item # ups). su_topic i = Some t))
                    \<longrightarrow> m2 t = m t"
    using same1 same2 by auto
  ultimately show ?case using u2 wf2 by blast
qed

lemma abs_entry_append: "abs_entry h e = Some x \<Longrightarrow> abs_entry (h @ ys) e = Some x"
proof -
  assume a: "abs_entry h e = Some x"
  then obtain l where e: "lookup h e = Some (EntryObj (status x) l)"
    and l: "lookup h l = Some (ListObj (evidence x))"
    using abs_entry_SomeD by blast
  from e have "e < length h" by (rule lookup_lt)
  moreover from l have "l < length h" by (rule lookup_lt)
  ultimately show ?thesis using e l by (simp add: abs_entry_def lookup_append_old)
qed

lemma lookup_frame:
  assumes "take n h' = take n h" and "a < n" and "n \<le> length h" and "n \<le> length h'"
  shows "lookup h' a = lookup h a"
proof -
  have "h' ! a = take n h' ! a" using assms(2) by simp
  also have "\<dots> = take n h ! a" using assms(1) by simp
  also have "\<dots> = h ! a" using assms(2) by simp
  finally show ?thesis using assms by (simp add: lookup_def)
qed

text \<open>
  Claim C10. apply_skill_updates never mutates its input: for every store in which the
  matrix argument is well formed and every update sequence, the call returns, every
  object that existed before the call (the matrix dictionary, its entry dictionaries and
  their evidence lists among them) is unchanged afterwards, the result is a newly
  allocated dictionary that reads back as the value computed by the pure model, the
  entry of every updated topic is a new dictionary with a new evidence list, and the
  entries of the other topics are the argument's own.
\<close>

theorem apply_skill_updates_frame:
  assumes wf: "wf_matrix h skill_matrix"
  shows "\<exists>h' r. apply_skill_updates_heap h skill_matrix updates = Some (h', r)
           \<and> take (length h) h' = h
           \<and> length h \<le> r
           \<and> abs_matrix h' (Some r) = apply_skill_updates (abs_matrix h skill_matrix) updates
           \<and> (\<forall>t. t \<noteq> [] \<and> (\<exists>i \<in> set updates. su_topic i = Some t)
                    \<longrightarrow> fresh_entry (length h) h' r t)
           \<and> (\<forall>t a. skill_matrix = Some a
                      \<and> \<not> (t \<noteq> [] \<and> (\<exists>i \<in> set updates. su_topic i = Some t))
                    \<longrightarrow> shared_entry h' a r t)"
proof -
  define m where "m = (case skill_matrix of
                         None \<Rightarrow> Map.empty
                       | Some a \<Rightarrow> (case lookup h a of Some (DictObj d) \<Rightarrow> d | _ \<Rightarrow> Map.empty))"
  have src: "(case skill_matrix of
                None \<Rightarrow> Some Map.empty
              | Some a \<Rightarrow> (case lookup h a of Some (DictObj d) \<Rightarrow> Some d | _ \<Rightarrow> None)) = Some m"
    using wf by (auto simp: wf_matrix_def m_def split: option.splits obj.splits)
  have wf_m: "wf_dict h m"
    using wf by (auto simp: wf_matrix_def m_def wf_dict_def split: option.splits obj.splits)
  have abs_m: "abs_matrix h skill_matrix = (\<lambda>t. case m t of None \<Rightarrow> None | Some e \<Rightarrow> abs_entry h e)"
    using wf by (auto simp: wf_matrix_def m_def abs_matrix_def split: option.splits obj.splits)
  let ?h1 = "h @ [DictObj m]"
  let ?u = "length h"
  have u1: "lookup ?h1 ?u = Some (DictObj m)" by (simp add: lookup_def)
  have wf1: "wf_dict ?h1 m"
    unfolding wf_dict_def
  proof (intro allI impI)
    fix t e assume "m t = Some e"
    with wf_m obtain x where "abs_entry h e = Some x" by (auto simp: wf_dict_def)
    then have "abs_entry ?h1 e = Some x" by (rule abs_entry_append)
    then show "abs_entry ?h1 e \<noteq> None" by simp
  qed
  have abs1: "abs_matrix ?h1 (Some ?u) = abs_matrix h skill_matrix"
  proof
    fix t
    show "abs_matrix ?h1 (Some ?u) t = abs_matrix h skill_matrix t"
    proof (cases "m t")
      case None
      then show ?thesis by (simp add: abs_matrix_at [OF u1] abs_m)
    next
      case (Some e)
      with wf_m obtain x where x: "abs_entry h e = Some x" by (auto simp: wf_dict_def)
      then have "abs_entry ?h1 e = Some x" by (rule abs_entry_append)
      with Some x show ?thesis by (simp add: abs_matrix_at [OF u1] abs_m)
    qed
  qed
  from heap_updates_props [OF u1 wf1 order_refl, of updates]
  obtain h' m' where run: "heap_updates ?u ?h1 updates = Some h'"
    and len: "length ?h1 \<le> length h'"
    and frame: "take ?u h' = take ?u ?h1"
    and u': "lookup h' ?u = Some (DictObj m')"
    and abs': "abs_matrix h' (Some ?u) = apply_skill_updates (abs_matrix ?h1 (Some ?u)) updates"
    and new: "\<forall>t. t \<noteq> [] \<and> (\<exists>i \<in> set updates. su_topic i = Some t)
                  \<longrightarrow> fresh_entry ?u h' ?u t"
    and same: "\<forall>t. \<not> (t \<noteq> [] \<and> (\<exists>i \<in> set updates. su_topic i = Some t)) \<longrightarrow> m' t = m t"
    by blast
  have result: "apply_skill_updates_heap h skill_matrix updates = Some (h', ?u)"
    using run by (simp add: apply_skill_updates_heap_def src alloc_def)
  have frame': "take ?u h' = h" using frame by simp
  have shared: "shared_entry h' a ?u t"
    if "skill_matrix = Some a" and "\<not> (t \<noteq> [] \<and> (\<exists>i \<in> set updates. su_topic i = Some t))"
    for t a
  proof -
    from that(1) wf have a: "lookup h a = Some (DictObj m)"
      by (auto simp: wf_matrix_def m_def split: option.splits obj.splits)
    then have "a < length h" by (rule lookup_lt)
    then have "lookup h' a = lookup h a"
      using frame' len by (intro lookup_frame [of "length h"]) auto
    moreover from same that(2) have "m' t = m t" by blast
    ultimately show ?thesis using a u' by (simp add: shared_entry_def)
  qed
  show ?thesis
    using result frame' abs' abs1 new shared by auto
qed

theorem apply_skill_updates_frame_witness:
  "wf_matrix example_heap (Some 4)
   \<and> apply_skill_updates_heap example_heap (Some 4) example_updates
     = Some (example_heap @
              [DictObj [''sql_joins'' \<mapsto> 9, ''python_oop'' \<mapsto> 3, ''git_basics'' \<mapsto> 13],
               ListObj [], EntryObj None 6,
               ListObj [''knows inner join'', ''mixed up left join''],
               EntryObj (Some ''confirmed'') 8,
               ListObj [], EntryObj None 10,
               ListObj [''vague on rebase''], EntryObj (Some ''uncertain'') 12],
             5)
   \<and> take (length example_heap)
        (fst (the (apply_skill_updates_heap example_heap (Some 4) example_updates)))
       = example_heap"
proof -
  have w: "wf_matrix example_heap (Some 4)"
    by (simp add: wf_matrix_def example_heap_def lookup_def wf_dict_def abs_entry_def)
  have r: "apply_skill_updates_heap example_heap (Some 4) example_updates
     = Some (example_heap @
              [DictObj [''sql_joins'' \<mapsto> 9, ''python_oop'' \<mapsto> 3, ''git_basics'' \<mapsto> 13],
               ListObj [], EntryObj None 6,
               ListObj [''knows inner join'', ''mixed up left join''],
               EntryObj (Some ''confirmed'') 8,
               ListObj [], EntryObj None 10,
               ListObj [''vague on rebase''], EntryObj (Some ''uncertain'') 12],
             5)"
    by (simp add: apply_skill_updates_heap_def example_heap_def example_updates_def
          heap_update_step_def alloc_def lookup_def truthy_def Let_def fun_upd_twist
          eval_nat_numeral)
  show ?thesis
    using w r apply_skill_updates_frame [OF w, of example_updates] by auto
qed

subsection \<open>Structured calls: retries and repair\<close>

lemma call_llm_for_json_single:
  "snd (call_llm_for_json llm messages schema 1 calls)
     = calls @ [(FreshCall, convert_messages messages)]"
  by (simp add: call_llm_for_json_def invoke_def Let_def
        split: llm_reply.splits option.splits)

lemma safe_call_attempts_fresh:
  "\<exists>k. snd (safe_call_attempts llm messages schema attempts last_err last_response calls)
     = calls @ replicate k (FreshCall, convert_messages messages) \<and> k \<le> length attempts"
proof (induction attempts arbitrary: last_err last_response calls)
  case Nil
  then show ?case by simp
next
  case (Cons attempt rest)
  obtain r calls1 where c: "call_llm_for_json llm messages schema 1 calls = (r, calls1)"
    by (cases "call_llm_for_json llm messages schema 1 calls")
  then have calls1: "calls1 = calls @ [(FreshCall, convert_messages messages)]"
    using call_llm_for_json_single [of llm messages schema calls] by simp
  show ?case
  proof (cases r)
    case (Inr v)
    with c calls1 have "snd (safe_call_attempts llm messages schema (attempt # rest)
                               last_err last_response calls)
        = calls @ replicate 1 (FreshCall, convert_messages messages)"
      by simp
    then show ?thesis by (intro exI [of _ 1]) simp
  next
    case (Inl exc)
    obtain le lr where rec: "safe_call_attempts llm messages schema (attempt # rest)
                               last_err last_response calls
        = safe_call_attempts llm messages schema rest le lr calls1"
      using c Inl by (cases exc) auto
    from Cons.IH [of le lr calls1] obtain k where
      k: "snd (safe_call_attempts llm messages schema rest le lr calls1)
            = calls1 @ replicate k (FreshCall, convert_messages messages)" "k \<le> length rest"
      by blast
    have "calls1 @ replicate k (FreshCall, convert_messages messages)
            = calls @ replicate (Suc k) (FreshCall, convert_messages messages)"
      by (simp add: calls1 replicate_app_Cons_same)
    with rec k show ?thesis by (intro exI [of _ "Suc k"]) simp
  qed
qed

lemma safe_call_for_json_fresh:
  "\<exists>k. snd (safe_call_for_json llm messages schema max_attempts role calls)
     = calls @ replicate k (FreshCall, convert_messages messages) \<and> int k \<le> max 0 max_attempts"
proof -
  obtain k where k:
    "snd (safe_call_attempts llm messages schema [0 ..< nat max_attempts] None None calls)
       = calls @ replicate k (FreshCall, convert_messages messages)"
    "k \<le> length [0 ..< nat max_attempts]"
    using safe_call_attempts_fresh by blast
  have "snd (safe_call_for_json llm messages schema max_attempts role calls)
      = snd (safe_call_attempts llm messages schema [0 ..< nat max_attempts] None None calls)"
    by (simp add: safe_call_for_json_def split: prod.splits sum.splits)
  with k show ?thesis by (intro exI [of _ k]) auto
qed

text \<open>
  Claim C1 says that in the structured-call subsystem an extraction or validation failure
  with attempts remaining issues exactly one repair round-trip (the bad text resent with
  the schema's JSON description) on whose answer extraction and validation are re-run,
  and that a capability answering with non-JSON text sees exactly one repair call before
  the call succeeds or exhausts its attempts. The subsystem's entry point does not do
  this. \<open>safe_call_for_json\<close> runs every attempt as \<open>call_llm_for_json\<close> with
  \<open>max_attempts=1\<close>, for which the repair branch is unreachable: whatever the
  capability, the schema and the attempt count, the call adds no repair request to the
  log. With two attempts and a capability that always answers \<open>not json\<close> it sends the
  original request twice, never a repair request, and raises the typed failure.
\<close>

theorem safe_call_for_json_never_repairs:
  "repair_calls (snd (safe_call_for_json llm messages schema max_attempts role calls))
     = repair_calls calls
   \<and> safe_call_for_json (always_replies ''not json'') example_messages accepts_empty_object
        2 ''observer'' []
     = (Inl \<lparr>err_role = ''observer'', err_last_response = Some ''not json'',
             err_cause = Some (JsonSchemaValidationError ''not json'' None)\<rparr>,
        [(FreshCall, convert_messages example_messages),
         (FreshCall, convert_messages example_messages)])"
proof -
  obtain k where "snd (safe_call_for_json llm messages schema max_attempts role calls)
     = calls @ replicate k (FreshCall, convert_messages messages)"
    using safe_call_for_json_fresh by blast
  then have "repair_calls (snd (safe_call_for_json llm messages schema max_attempts role calls))
     = repair_calls calls"
    by (simp add: repair_calls_def)
  moreover have "safe_call_for_json (always_replies ''not json'') example_messages
        accepts_empty_object 2 ''observer'' []
     = (Inl \<lparr>err_role = ''observer'', err_last_response = Some ''not json'',
             err_cause = Some (JsonSchemaValidationError ''not json'' None)\<rparr>,
        [(FreshCall, convert_messages example_messages),
         (FreshCall, convert_messages example_messages)])"
    by code_simp
  ultimately show ?thesis by blast
qed

text \<open>
  The repair round-trip itself is in place one level below: called with at least two
  attempts, \<open>call_llm_for_json\<close> answers a first reply that fails to parse with exactly
  one repair request, carrying the bad text and the schema's JSON description, and
  parses the stripped answer to it.
\<close>

lemma call_llm_for_json_repairs_once:
  assumes "2 \<le> max_attempts"
      and "llm (map snd calls @ [convert_messages messages]) = Content bad"
      and "parse_json_with_schema schema bad = None"
  shows "call_llm_for_json llm messages schema max_attempts calls =
     ((case llm (map snd calls @ [convert_messages messages,
                                  repair_request bad (schema_to_json schema)]) of
         Content repaired \<Rightarrow>
           (case parse_json_with_schema schema (py_strip repaired) of
              Some v \<Rightarrow> Inr v
            | None \<Rightarrow> Inl (JsonSchemaValidationError bad (Some (py_strip repaired))))
       | NoContent r \<Rightarrow> Inl ValueError
       | CallFails \<Rightarrow> Inl TransportError),
      calls @ [(FreshCall, convert_messages messages),
               (RepairCall, repair_request bad (schema_to_json schema))])"
proof -
  from assms(1) have "[0 ..< nat max_attempts] = 0 # [1 ..< nat max_attempts]"
    by (simp add: upt_conv_Cons)
  then show ?thesis
    using assms
    by (simp add: call_llm_for_json_def invoke_def repair_to_valid_json_def Let_def
          split: llm_reply.splits option.splits)
qed

end
